theory Spec2Isabelle
  imports Main
begin

section \<open>Values, errors and the external path library\<close>

text \<open>
  The module \<^verbatim>\<open>trio/_path.py\<close> wraps \<^verbatim>\<open>pathlib.Path\<close>. Python values are modelled by
  the datatype \<open>val\<close>: \<open>Raw r\<close> is an instance of \<^verbatim>\<open>pathlib.Path\<close> (the raw path \<open>r\<close>, of a
  type left open), \<open>Facade w\<close> is an instance of \<^verbatim>\<open>trio.Path\<close> whose attribute
  \<^verbatim>\<open>_wrapped\<close> holds the value \<open>w\<close>. Object identity is not modelled: two values are the
  same when they are equal.
\<close>

datatype 'r val =
    VNone
  | VBool bool
  | VInt int
  | VStr string
  | VBytes string
  | NotImplemented
  | VList "'r val list"
  | Raw 'r
  | Facade "'r val"

text \<open>The kind of a member found in a class dictionary (\<^verbatim>\<open>type(attr)\<close>).\<close>

datatype member = Property | Function | ClassMethod | StaticMethod | Data

text \<open>
  \<open>TypeError n k\<close> is \<^verbatim>\<open>TypeError(attr_name, type(attr))\<close>, \<open>AttributeError n\<close> is
  \<^verbatim>\<open>AttributeError(name)\<close>, and \<open>Raised s\<close> is any error raised by the underlying library.
\<close>

datatype error = TypeError string member | AttributeError string | Raised string

type_synonym 'r kwargs = "(string \<times> 'r val) list"

type_synonym 'r bound_method = "'r val list \<Rightarrow> 'r kwargs \<Rightarrow> error + 'r val"

text \<open>
  \<^verbatim>\<open>pathlib\<close> is not part of the module; what the module uses of it is a parameter:
  \<^item> \<open>Path_new args\<close> is \<^verbatim>\<open>pathlib.Path(*args)\<close>, which returns a \<^verbatim>\<open>pathlib.Path\<close> or raises;
  \<^item> \<open>getattr_method obj name\<close> is \<^verbatim>\<open>getattr(obj, name)\<close> where the result is then called
    with positional and keyword arguments;
  \<^item> \<open>getattr_value obj name\<close> is \<^verbatim>\<open>getattr(obj, name)\<close> where the result is used as a
    value (a property);
  \<^item> \<open>forwards_attr name\<close> is \<^verbatim>\<open>getattr(pathlib.PurePath, name)\<close>, a plain function called
    with positional arguments, or \<open>None\<close> when the lookup raises \<^verbatim>\<open>AttributeError\<close>.
\<close>

record 'r pathlib =
  Path_new :: "'r val list \<Rightarrow> error + 'r"
  getattr_method :: "'r val \<Rightarrow> string \<Rightarrow> error + 'r bound_method"
  getattr_value :: "'r val \<Rightarrow> string \<Rightarrow> error + 'r val"
  forwards_attr :: "string \<Rightarrow> ('r val list \<Rightarrow> error + 'r val) option"

section \<open>The unwrap and rewrap protocol\<close>

text \<open>
  \<^verbatim>\<open>unwrap_paths\<close>: the loop over \<^verbatim>\<open>args\<close> appending to \<^verbatim>\<open>new_args\<close>. The test
  \<^verbatim>\<open>isinstance(arg, Path)\<close> is the pattern \<open>Facade w\<close>, and \<^verbatim>\<open>arg._wrapped\<close> is \<open>w\<close>.
\<close>

fun unwrap_loop :: "'r val list \<Rightarrow> 'r val list \<Rightarrow> 'r val list" where
  "unwrap_loop [] new_args = new_args"
| "unwrap_loop (arg # rest) new_args =
     unwrap_loop rest (new_args @ [case arg of Facade w \<Rightarrow> w | _ \<Rightarrow> arg])"

definition unwrap_paths :: "'r val list \<Rightarrow> 'r val list" where
  "unwrap_paths args = unwrap_loop args []"

text \<open>\<^verbatim>\<open>Path.__init__\<close>: unwrap the arguments, then build the owned \<^verbatim>\<open>pathlib.Path\<close>.\<close>

definition Path_init :: "'r pathlib \<Rightarrow> 'r val list \<Rightarrow> error + 'r val" where
  "Path_init L args =
     (case Path_new L (unwrap_paths args) of
        Inl e \<Rightarrow> Inl e
      | Inr r \<Rightarrow> Inr (Facade (Raw r)))"

text \<open>
  \<^verbatim>\<open>rewrap_path\<close>: \<^verbatim>\<open>isinstance(value, pathlib.Path)\<close> is the pattern \<open>Raw r\<close>; the new
  facade is built by the constructor \<^verbatim>\<open>Path(value)\<close>.
\<close>

fun rewrap_path :: "'r pathlib \<Rightarrow> 'r val \<Rightarrow> error + 'r val" where
  "rewrap_path L (Raw r) = Path_init L [Raw r]"
| "rewrap_path L v = Inr v"

text \<open>
  \<^verbatim>\<open>self._wrapped\<close>: the owned value of a facade; any other object has no such attribute.
\<close>

fun wrapped :: "'r val \<Rightarrow> error + 'r val" where
  "wrapped (Facade w) = Inr w"
| "wrapped v = Inl (AttributeError ''_wrapped'')"

section \<open>The synthesized dispatchers\<close>

text \<open>The wrapper returned by \<^verbatim>\<open>_forward_factory(cls, attr_name, attr)\<close>.\<close>

definition forward_factory ::
  "'r pathlib \<Rightarrow> string \<Rightarrow> 'r val \<Rightarrow> 'r val list \<Rightarrow> 'r kwargs \<Rightarrow> error + 'r val" where
  "forward_factory L attr_name self args kwargs =
     (let args' = unwrap_paths args in
      case wrapped self of
        Inl e \<Rightarrow> Inl e
      | Inr w \<Rightarrow>
          (case getattr_method L w attr_name of
             Inl e \<Rightarrow> Inl e
           | Inr attr \<Rightarrow>
               (case attr args' kwargs of
                  Inl e \<Rightarrow> Inl e
                | Inr value \<Rightarrow> rewrap_path L value)))"

text \<open>
  The wrapper returned by \<^verbatim>\<open>_forward_magic(cls, attr)\<close>. The default \<^verbatim>\<open>other=sentinel\<close>
  is \<open>None\<close>; a supplied operand \<open>x\<close> (also Python's \<^verbatim>\<open>None\<close>) is \<open>Some x\<close>.
\<close>

definition forward_magic ::
  "'r pathlib \<Rightarrow> ('r val list \<Rightarrow> error + 'r val) \<Rightarrow> 'r val \<Rightarrow> 'r val option \<Rightarrow> error + 'r val" where
  "forward_magic L attr self other =
     (case other of
        None \<Rightarrow>
          (case wrapped self of
             Inl e \<Rightarrow> Inl e
           | Inr w \<Rightarrow> attr [w])
      | Some x \<Rightarrow>
          (let other' = (case x of Facade w' \<Rightarrow> w' | _ \<Rightarrow> x) in
           case wrapped self of
             Inl e \<Rightarrow> Inl e
           | Inr w \<Rightarrow>
               (case attr [w, other'] of
                  Inl e \<Rightarrow> Inl e
                | Inr value \<Rightarrow> rewrap_path L value)))"

text \<open>\<^verbatim>\<open>functools.partial(meth, *args, **kwargs)\<close>: a deferred call without arguments.\<close>

definition partial :: "'r bound_method \<Rightarrow> 'r val list \<Rightarrow> 'r kwargs \<Rightarrow> (unit \<Rightarrow> error + 'r val)" where
  "partial meth args kwargs = (\<lambda>_. meth args kwargs)"

text \<open>
  Modelled from the spec: \<^verbatim>\<open>trio.run_sync_in_worker_thread\<close> is defined elsewhere in trio.
  The spec describes it as: submit a zero-argument deferred invocation, suspend the caller,
  resume with either its return value or its raised error. Scheduling is not modelled.
\<close>

definition run_sync_in_worker_thread :: "(unit \<Rightarrow> error + 'a) \<Rightarrow> error + 'a" where
  "run_sync_in_worker_thread func = func ()"

text \<open>The wrapper returned by \<^verbatim>\<open>thread_wrapper_factory(cls, meth_name)\<close>.\<close>

definition thread_wrapper_factory ::
  "'r pathlib \<Rightarrow> string \<Rightarrow> 'r val \<Rightarrow> 'r val list \<Rightarrow> 'r kwargs \<Rightarrow> error + 'r val" where
  "thread_wrapper_factory L meth_name self args kwargs =
     (let args' = unwrap_paths args in
      case wrapped self of
        Inl e \<Rightarrow> Inl e
      | Inr w \<Rightarrow>
          (case getattr_method L w meth_name of
             Inl e \<Rightarrow> Inl e
           | Inr meth \<Rightarrow>
               (let func = partial meth args' kwargs in
                case run_sync_in_worker_thread func of
                  Inl e \<Rightarrow> Inl e
                | Inr value \<Rightarrow> rewrap_path L value)))"

section \<open>The member classifier\<close>

text \<open>
  What the metaclass attaches to the class under a name: an attribute of the class body
  (\<open>Explicit\<close>), the wrapper of \<^verbatim>\<open>_forward_factory\<close>, the wrapper of
  \<^verbatim>\<open>thread_wrapper_factory\<close>, the member of \<^verbatim>\<open>_wraps\<close> itself (a classmethod, attached
  unchanged), or the wrapper of \<^verbatim>\<open>_forward_magic\<close>.
\<close>

datatype attached =
    Explicit
  | ForwardWrapper string
  | ThreadWrapper string
  | WrapsMember string
  | MagicWrapper string

text \<open>
  The class under construction: \<open>cls_forward\<close> is the list \<^verbatim>\<open>cls._forward\<close>, and
  \<open>cls_attr\<close> holds the attributes of the class (\<^verbatim>\<open>setattr(cls, attr_name, ...)\<close>).
\<close>

record cls =
  cls_forward :: "string list"
  cls_attr :: "string \<rightharpoonup> attached"

text \<open>\<^verbatim>\<open>attr_name.startswith('_')\<close>\<close>

fun startswith_underscore :: "string \<Rightarrow> bool" where
  "startswith_underscore [] = False"
| "startswith_underscore (c # cs) = (c = CHR ''_'')"

text \<open>
  \<^verbatim>\<open>generate_forwards\<close>: the loop over \<^verbatim>\<open>cls._forwards.__dict__.items()\<close>, a list of
  names with the kind of each member, in the order of the dictionary; \<open>attrs\<close> are the
  names of the class body. The \<^verbatim>\<open>raise\<close> leaves the loop.
\<close>

fun generate_forwards :: "string list \<Rightarrow> (string \<times> member) list \<Rightarrow> cls \<Rightarrow> error + cls" where
  "generate_forwards attrs [] c = Inr c"
| "generate_forwards attrs ((attr_name, attr) # rest) c =
     (if startswith_underscore attr_name \<or> attr_name \<in> set attrs
      then generate_forwards attrs rest c
      else if attr = Property
      then generate_forwards attrs rest (c\<lparr>cls_forward := cls_forward c @ [attr_name]\<rparr>)
      else if attr = Function
      then generate_forwards attrs rest
             (c\<lparr>cls_attr := (cls_attr c)(attr_name \<mapsto> ForwardWrapper attr_name)\<rparr>)
      else Inl (TypeError attr_name attr))"

text \<open>\<^verbatim>\<open>generate_wraps\<close>: the loop over \<^verbatim>\<open>cls._wraps.__dict__.items()\<close>.\<close>

fun generate_wraps :: "string list \<Rightarrow> (string \<times> member) list \<Rightarrow> cls \<Rightarrow> error + cls" where
  "generate_wraps attrs [] c = Inr c"
| "generate_wraps attrs ((attr_name, attr) # rest) c =
     (if startswith_underscore attr_name \<or> attr_name \<in> set attrs
      then generate_wraps attrs rest c
      else if attr = ClassMethod
      then generate_wraps attrs rest
             (c\<lparr>cls_attr := (cls_attr c)(attr_name \<mapsto> WrapsMember attr_name)\<rparr>)
      else if attr = Function
      then generate_wraps attrs rest
             (c\<lparr>cls_attr := (cls_attr c)(attr_name \<mapsto> ThreadWrapper attr_name)\<rparr>)
      else Inl (TypeError attr_name attr))"

text \<open>
  \<^verbatim>\<open>generate_magic\<close>: the loop over \<^verbatim>\<open>cls._forward_magic\<close>; \<open>lookup\<close> is
  \<^verbatim>\<open>getattr(cls._forwards, attr_name)\<close>, which raises \<^verbatim>\<open>AttributeError\<close> for a name the
  type does not have.
\<close>

fun generate_magic :: "(string \<Rightarrow> 'a option) \<Rightarrow> string list \<Rightarrow> cls \<Rightarrow> error + cls" where
  "generate_magic lookup [] c = Inr c"
| "generate_magic lookup (attr_name # rest) c =
     (case lookup attr_name of
        None \<Rightarrow> Inl (AttributeError attr_name)
      | Some attr \<Rightarrow>
          generate_magic lookup rest
            (c\<lparr>cls_attr := (cls_attr c)(attr_name \<mapsto> MagicWrapper attr_name)\<rparr>))"

text \<open>
  \<^verbatim>\<open>AsyncAutoWrapperType.__init__\<close>: \<^verbatim>\<open>super().__init__\<close> gives the class the attributes
  of its body and \<^verbatim>\<open>cls._forward = []\<close> starts the list (\<open>type_init\<close>); then the three
  passes run in turn.
\<close>

definition type_init :: "string list \<Rightarrow> cls" where
  "type_init attrs =
     \<lparr>cls_forward = [], cls_attr = (\<lambda>n. if n \<in> set attrs then Some Explicit else None)\<rparr>"

definition AsyncAutoWrapperType_init ::
  "string list \<Rightarrow> (string \<times> member) list \<Rightarrow> (string \<times> member) list \<Rightarrow> string list \<Rightarrow>
   (string \<Rightarrow> 'a option) \<Rightarrow> error + cls" where
  "AsyncAutoWrapperType_init attrs forwards_dict wraps_dict magic lookup =
     (let c = type_init attrs in
      case generate_forwards attrs forwards_dict c of
        Inl e \<Rightarrow> Inl e
      | Inr c1 \<Rightarrow>
          (case generate_wraps attrs wraps_dict c1 of
             Inl e \<Rightarrow> Inl e
           | Inr c2 \<Rightarrow> generate_magic lookup magic c2))"

section \<open>The class \<^verbatim>\<open>Path\<close>\<close>

text \<open>The names of the body of \<^verbatim>\<open>class Path\<close>, and its list \<^verbatim>\<open>_forward_magic\<close>.\<close>

definition Path_attrs :: "string list" where
  "Path_attrs =
     [''__module__'', ''__qualname__'', ''__doc__'', ''_wraps'', ''_forwards'',
      ''_forward_magic'', ''__init__'', ''__getattr__'', ''__dir__'', ''__repr__'',
      ''__fspath__'', ''open'']"

definition Path_forward_magic :: "string list" where
  "Path_forward_magic =
     [''__str__'', ''__bytes__'', ''__truediv__'', ''__rtruediv__'', ''__eq__'',
      ''__lt__'', ''__le__'', ''__gt__'', ''__ge__'']"

text \<open>
  The construction of \<^verbatim>\<open>class Path\<close>; the dictionaries of \<^verbatim>\<open>pathlib.PurePath\<close>
  (\<^verbatim>\<open>_forwards\<close>) and of \<^verbatim>\<open>pathlib.Path\<close> (\<^verbatim>\<open>_wraps\<close>) are parameters.
\<close>

definition Path_class ::
  "'r pathlib \<Rightarrow> (string \<times> member) list \<Rightarrow> (string \<times> member) list \<Rightarrow> error + cls" where
  "Path_class L forwards_dict wraps_dict =
     AsyncAutoWrapperType_init Path_attrs forwards_dict wraps_dict Path_forward_magic
       (forwards_attr L)"

text \<open>\<^verbatim>\<open>Path.__getattr__\<close>, the hook Python calls when the normal lookup of \<open>name\<close> fails.\<close>

definition Path_getattr :: "'r pathlib \<Rightarrow> cls \<Rightarrow> 'r val \<Rightarrow> string \<Rightarrow> error + 'r val" where
  "Path_getattr L c self name =
     (if name \<in> set (cls_forward c)
      then (case wrapped self of
              Inl e \<Rightarrow> Inl e
            | Inr w \<Rightarrow>
                (case getattr_value L w name of
                   Inl e \<Rightarrow> Inl e
                 | Inr value \<Rightarrow> rewrap_path L value))
      else Inl (AttributeError name))"

section \<open>Vocabulary of the statements\<close>

text \<open>
  A name the two classifying loops do not skip: it does not start with an underscore and
  is not a name of the class body.
\<close>

definition eligible :: "string list \<Rightarrow> string \<Rightarrow> bool" where
  "eligible attrs n = (\<not> startswith_underscore n \<and> n \<notin> set attrs)"

text \<open>
  The four places a classified member can be put: the list \<^verbatim>\<open>cls._forward\<close>, or the class
  attribute of its name holding a non-blocking wrapper, the classmethod itself, or a
  blocking wrapper.
\<close>

datatype bucket = PropertyForward | NonBlocking | ClassMethodAttached | Blocking

fun in_bucket :: "cls \<Rightarrow> string \<Rightarrow> bucket \<Rightarrow> bool" where
  "in_bucket c n PropertyForward = (n \<in> set (cls_forward c))"
| "in_bucket c n NonBlocking = (cls_attr c n = Some (ForwardWrapper n))"
| "in_bucket c n ClassMethodAttached = (cls_attr c n = Some (WrapsMember n))"
| "in_bucket c n Blocking = (cls_attr c n = Some (ThreadWrapper n))"

text \<open>The bucket the loops choose for a kind of member of each source, if any.\<close>

fun forwards_bucket :: "member \<Rightarrow> bucket option" where
  "forwards_bucket Property = Some PropertyForward"
| "forwards_bucket Function = Some NonBlocking"
| "forwards_bucket k = None"

fun wraps_bucket :: "member \<Rightarrow> bucket option" where
  "wraps_bucket ClassMethod = Some ClassMethodAttached"
| "wraps_bucket Function = Some Blocking"
| "wraps_bucket k = None"

text \<open>The Python expression \<^verbatim>\<open>xs[0]\<close>.\<close>

definition item0 :: "'a list \<Rightarrow> error + 'a" where
  "item0 xs = (case xs of [] \<Rightarrow> Inl (Raised ''IndexError'') | x # rest \<Rightarrow> Inr x)"

text \<open>
  The expression \<^verbatim>\<open>rewrap_path(unwrap_paths([Path(p)])[0])\<close> for a raw path \<open>p\<close>.
\<close>

definition roundtrip :: "'r pathlib \<Rightarrow> 'r \<Rightarrow> error + 'r val" where
  "roundtrip L p =
     (case Path_init L [Raw p] of
        Inl e \<Rightarrow> Inl e
      | Inr f \<Rightarrow>
          (case item0 (unwrap_paths [f]) of
             Inl e \<Rightarrow> Inl e
           | Inr x \<Rightarrow> rewrap_path L x))"

text \<open>The invariant of a value: if it is a facade, the value it owns is a raw path.\<close>

fun owns_raw :: "'r val \<Rightarrow> bool" where
  "owns_raw (Facade (Raw r)) = True"
| "owns_raw (Facade w) = False"
| "owns_raw v = True"

section \<open>A miniature path library\<close>

text \<open>
  A small instance of the library parameter, with paths as strings joined by \<open>/\<close>. It
  serves to evaluate the dispatchers on concrete inputs.
\<close>

fun toy_segment :: "string val \<Rightarrow> string option" where
  "toy_segment (VStr s) = Some s"
| "toy_segment (Raw r) = Some r"
| "toy_segment v = None"

fun toy_join :: "string list \<Rightarrow> string" where
  "toy_join [] = ''.''"
| "toy_join [s] = s"
| "toy_join (s # t # rest) = s @ ''/'' @ toy_join (t # rest)"

definition toy_Path_new :: "string val list \<Rightarrow> error + string" where
  "toy_Path_new args =
     (case those (map toy_segment args) of
        None \<Rightarrow> Inl (Raised ''TypeError'')
      | Some segs \<Rightarrow> Inr (toy_join segs))"

definition toy_method :: "string \<Rightarrow> string \<Rightarrow> error + string bound_method" where
  "toy_method r name =
     (if name = ''joinpath'' then
        Inr (\<lambda>args kwargs. case toy_Path_new (Raw r # args) of
                             Inl e \<Rightarrow> Inl e | Inr j \<Rightarrow> Inr (Raw j))
      else if name = ''as_posix'' then Inr (\<lambda>args kwargs. Inr (VStr r))
      else if name = ''exists'' then Inr (\<lambda>args kwargs. Inr (VBool (r = ''.'')))
      else if name = ''iterdir'' then
        Inr (\<lambda>args kwargs. if r = ''.'' then Inr (VList [Raw ''a'', Raw ''b''])
                            else Inl (Raised ''FileNotFoundError''))
      else if name = ''samefile'' then
        Inr (\<lambda>args kwargs. case args of
                              [Raw other] \<Rightarrow> Inr (VBool (r = other))
                            | _ \<Rightarrow> Inl (Raised ''TypeError''))
      else if name = ''rename'' then
        Inr (\<lambda>args kwargs. case args of
                              [Raw target] \<Rightarrow> Inr (Raw target)
                            | _ \<Rightarrow> Inl (Raised ''TypeError''))
      else Inl (AttributeError name))"

definition toy_getattr_method :: "string val \<Rightarrow> string \<Rightarrow> error + string bound_method" where
  "toy_getattr_method obj name =
     (case obj of Raw r \<Rightarrow> toy_method r name | _ \<Rightarrow> Inl (AttributeError name))"

definition toy_getattr_value :: "string val \<Rightarrow> string \<Rightarrow> error + string val" where
  "toy_getattr_value obj name =
     (case obj of
        Raw r \<Rightarrow>
          (if name = ''name'' then Inr (VStr r)
           else if name = ''parent'' then Inr (Raw ''.'')
           else Inl (AttributeError name))
      | _ \<Rightarrow> Inl (AttributeError name))"

text \<open>The operators of the miniature library; its order compares lengths.\<close>

definition toy_binary ::
  "(string \<Rightarrow> string val \<Rightarrow> string val) \<Rightarrow> string val list \<Rightarrow> error + string val" where
  "toy_binary f args =
     (case args of
        [Raw a, b] \<Rightarrow> Inr (f a b)
      | _ \<Rightarrow> Inl (Raised ''TypeError''))"

definition toy_eq :: "string \<Rightarrow> string val \<Rightarrow> string val" where
  "toy_eq a other = (case other of Raw b \<Rightarrow> VBool (a = b) | _ \<Rightarrow> NotImplemented)"

definition toy_compare :: "(nat \<Rightarrow> nat \<Rightarrow> bool) \<Rightarrow> string \<Rightarrow> string val \<Rightarrow> string val" where
  "toy_compare f a other =
     (case other of Raw b \<Rightarrow> VBool (f (length a) (length b)) | _ \<Rightarrow> NotImplemented)"

definition toy_truediv :: "string \<Rightarrow> string val \<Rightarrow> string val" where
  "toy_truediv a other =
     (case toy_segment other of Some b \<Rightarrow> Raw (toy_join [a, b]) | None \<Rightarrow> NotImplemented)"

definition toy_rtruediv :: "string \<Rightarrow> string val \<Rightarrow> string val" where
  "toy_rtruediv a other =
     (case toy_segment other of Some b \<Rightarrow> Raw (toy_join [b, a]) | None \<Rightarrow> NotImplemented)"

definition toy_unary :: "(string \<Rightarrow> string val) \<Rightarrow> string val list \<Rightarrow> error + string val" where
  "toy_unary f args =
     (case args of
        [Raw a] \<Rightarrow> Inr (f a)
      | _ \<Rightarrow> Inl (Raised ''TypeError''))"

definition toy_forwards_attr :: "string \<Rightarrow> (string val list \<Rightarrow> error + string val) option" where
  "toy_forwards_attr name =
     (if name = ''__str__'' then Some (toy_unary VStr)
      else if name = ''__bytes__'' then Some (toy_unary VBytes)
      else if name = ''__truediv__'' then Some (toy_binary toy_truediv)
      else if name = ''__rtruediv__'' then Some (toy_binary toy_rtruediv)
      else if name = ''__eq__'' then Some (toy_binary toy_eq)
      else if name = ''__lt__'' then Some (toy_binary (toy_compare (<)))
      else if name = ''__le__'' then Some (toy_binary (toy_compare (\<le>)))
      else if name = ''__gt__'' then Some (toy_binary (toy_compare (>)))
      else if name = ''__ge__'' then Some (toy_binary (toy_compare (\<ge>)))
      else None)"

text \<open>The member dictionaries of the two types of the miniature library.\<close>

definition toy_forwards_dict :: "(string \<times> member) list" where
  "toy_forwards_dict =
     [(''__slots__'', Data), (''__eq__'', Function), (''name'', Property),
      (''parent'', Property), (''joinpath'', Function), (''as_posix'', Function)]"

definition toy_wraps_dict :: "(string \<times> member) list" where
  "toy_wraps_dict =
     [(''__slots__'', Data), (''cwd'', ClassMethod), (''exists'', Function),
      (''iterdir'', Function), (''open'', Function)]"

definition toy :: "string pathlib" where
  "toy = \<lparr>Path_new = toy_Path_new, getattr_method = toy_getattr_method,
          getattr_value = toy_getattr_value, forwards_attr = toy_forwards_attr\<rparr>"

section \<open>Properties of the unwrap and rewrap protocol\<close>

lemma unwrap_loop_eq:
  "unwrap_loop args new_args = new_args @ map (\<lambda>a. case a of Facade w \<Rightarrow> w | _ \<Rightarrow> a) args"
  by (induction args arbitrary: new_args) simp_all

lemma unwrap_paths_map:
  "unwrap_paths args = map (\<lambda>a. case a of Facade w \<Rightarrow> w | _ \<Rightarrow> a) args"
  by (simp add: unwrap_paths_def unwrap_loop_eq)

lemma rewrap_path_not_raw: "(\<forall>r. v \<noteq> Raw r) \<Longrightarrow> rewrap_path L v = Inr v"
  by (cases v) simp_all

lemma Path_init_raw:
  "Path_init L [Raw r] =
     (case Path_new L [Raw r] of Inl e \<Rightarrow> Inl e | Inr r' \<Rightarrow> Inr (Facade (Raw r')))"
  by (simp add: Path_init_def unwrap_paths_map)

lemma Path_init_copy: "Path_new L [Raw p] = Inr p \<Longrightarrow> Path_init L [Raw p] = Inr (Facade (Raw p))"
  by (simp add: Path_init_raw)

lemma toy_simps [simp]:
  "Path_new toy = toy_Path_new"
  "getattr_method toy = toy_getattr_method"
  "getattr_value toy = toy_getattr_value"
  "forwards_attr toy = toy_forwards_attr"
  by (simp_all add: toy_def)

lemmas toy_lib_defs =
  toy_Path_new_def toy_getattr_method_def toy_method_def toy_getattr_value_def
  toy_forwards_attr_def toy_binary_def toy_unary_def toy_eq_def toy_compare_def
  toy_truediv_def toy_rtruediv_def

text \<open>
  Claim C4. For every list of arguments, also the empty one, \<^verbatim>\<open>unwrap_paths\<close> returns a
  list of the same length in which, position by position, a facade is replaced by the
  value it owns and every other argument is the argument itself. The function only
  builds the new list: its result is a value of its argument and nothing else changes.
\<close>

theorem unwrap_paths_elementwise:
  "length (unwrap_paths args) = length args \<and>
   (\<forall>i. i < length args \<longrightarrow>
      unwrap_paths args ! i = (case args ! i of Facade w \<Rightarrow> w | _ \<Rightarrow> args ! i)) \<and>
   unwrap_paths ([] :: 'r val list) = []"
  by (simp add: unwrap_paths_map)

theorem unwrap_paths_elementwise_witness:
  "length (unwrap_paths [Facade (Raw ''a''), VStr ''b'', Raw ''c'']) = 3 \<and>
   unwrap_paths [Facade (Raw ''a''), VStr ''b'', Raw ''c''] ! 0 = Raw ''a'' \<and>
   unwrap_paths [Facade (Raw ''a''), VStr ''b'', Raw ''c''] ! 1 = VStr ''b'' \<and>
   unwrap_paths [Facade (Raw ''a''), VStr ''b'', Raw ''c''] ! 2 = Raw ''c''"
  using unwrap_paths_elementwise [of "[Facade (Raw ''a''), VStr ''b'', Raw ''c'']"]
  by (simp add: unwrap_paths_map)

text \<open>
  Claim C5. \<^verbatim>\<open>rewrap_path\<close> applied to a raw path returns a new facade, built by the
  constructor from that raw path; where \<^verbatim>\<open>pathlib.Path(r)\<close> is the path \<open>r\<close> again, the
  facade owns \<open>r\<close>. Any value that is not a raw path is returned unchanged: a string, a
  Boolean, and a list of raw paths, which is not rewrapped element by element.
\<close>

theorem rewrap_path_cases:
  "rewrap_path L (Raw r) =
     (case Path_new L [Raw r] of Inl e \<Rightarrow> Inl e | Inr r' \<Rightarrow> Inr (Facade (Raw r'))) \<and>
   (Path_new L [Raw r] = Inr r \<longrightarrow> rewrap_path L (Raw r) = Inr (Facade (Raw r))) \<and>
   ((\<forall>p. v \<noteq> Raw p) \<longrightarrow> rewrap_path L v = Inr v) \<and>
   rewrap_path L (VStr s) = Inr (VStr s) \<and>
   rewrap_path L (VBool b) = Inr (VBool b) \<and>
   rewrap_path L (VList (map Raw rs)) = Inr (VList (map Raw rs))"
  by (simp add: Path_init_raw rewrap_path_not_raw)

theorem rewrap_path_cases_witness:
  "Path_new toy [Raw ''a/b''] = Inr ''a/b'' \<and>
   rewrap_path toy (Raw ''a/b'') = Inr (Facade (Raw ''a/b'')) \<and>
   rewrap_path toy (VInt 7) = Inr (VInt 7) \<and>
   rewrap_path toy (VList [Raw ''a'', Raw ''b'']) = Inr (VList [Raw ''a'', Raw ''b''])"
  using rewrap_path_cases [of toy "''a/b''" "VInt 7" "''s''" True "[''a'', ''b'']"]
  by (simp add: toy_Path_new_def)

section \<open>Properties of the classifying loops\<close>

lemma generate_forwards_forward:
  "generate_forwards attrs d c = Inr c' \<Longrightarrow>
   cls_forward c' =
     cls_forward c @ map fst (filter (\<lambda>(n, a). eligible attrs n \<and> a = Property) d)"
  by (induction attrs d c rule: generate_forwards.induct)
     (auto simp: eligible_def split: if_splits)

lemma generate_forwards_attr:
  "generate_forwards attrs d c = Inr c' \<Longrightarrow>
   cls_attr c' n =
     (if eligible attrs n \<and> (n, Function) \<in> set d then Some (ForwardWrapper n)
      else cls_attr c n)"
  by (induction attrs d c rule: generate_forwards.induct)
     (auto simp: eligible_def split: if_splits)

lemma generate_forwards_kinds:
  "generate_forwards attrs d c = Inr c' \<Longrightarrow> (n, a) \<in> set d \<Longrightarrow> eligible attrs n \<Longrightarrow>
   a = Property \<or> a = Function"
  by (induction attrs d c rule: generate_forwards.induct)
     (auto simp: eligible_def split: if_splits)

lemma generate_forwards_fails:
  "(n, a) \<in> set d \<Longrightarrow> eligible attrs n \<Longrightarrow> a \<noteq> Property \<Longrightarrow> a \<noteq> Function \<Longrightarrow>
   \<exists>n' a'. generate_forwards attrs d c = Inl (TypeError n' a') \<and> (n', a') \<in> set d \<and>
     eligible attrs n' \<and> a' \<noteq> Property \<and> a' \<noteq> Function"
  by (induction attrs d c rule: generate_forwards.induct)
     (auto simp: eligible_def split: if_splits)

lemma generate_forwards_error:
  "generate_forwards attrs d c = Inl e \<Longrightarrow>
   \<exists>n a. e = TypeError n a \<and> (n, a) \<in> set d \<and> eligible attrs n \<and>
     a \<noteq> Property \<and> a \<noteq> Function"
  by (induction attrs d c rule: generate_forwards.induct)
     (auto simp: eligible_def split: if_splits)

lemma generate_wraps_forward:
  "generate_wraps attrs d c = Inr c' \<Longrightarrow> cls_forward c' = cls_forward c"
  by (induction attrs d c rule: generate_wraps.induct) (auto split: if_splits)

lemma generate_wraps_attr:
  "generate_wraps attrs d c = Inr c' \<Longrightarrow> distinct (map fst d) \<Longrightarrow>
   cls_attr c' n =
     (if eligible attrs n \<and> (n, ClassMethod) \<in> set d then Some (WrapsMember n)
      else if eligible attrs n \<and> (n, Function) \<in> set d then Some (ThreadWrapper n)
      else cls_attr c n)"
  by (induction attrs d c rule: generate_wraps.induct)
     (force simp: eligible_def split: if_splits)+

lemma generate_wraps_kinds:
  "generate_wraps attrs d c = Inr c' \<Longrightarrow> (n, a) \<in> set d \<Longrightarrow> eligible attrs n \<Longrightarrow>
   a = ClassMethod \<or> a = Function"
  by (induction attrs d c rule: generate_wraps.induct)
     (auto simp: eligible_def split: if_splits)

lemma generate_wraps_fails:
  "(n, a) \<in> set d \<Longrightarrow> eligible attrs n \<Longrightarrow> a \<noteq> ClassMethod \<Longrightarrow> a \<noteq> Function \<Longrightarrow>
   \<exists>n' a'. generate_wraps attrs d c = Inl (TypeError n' a') \<and> (n', a') \<in> set d \<and>
     eligible attrs n' \<and> a' \<noteq> ClassMethod \<and> a' \<noteq> Function"
  by (induction attrs d c rule: generate_wraps.induct)
     (auto simp: eligible_def split: if_splits)

lemma generate_magic_forward:
  "generate_magic lookup ms c = Inr c' \<Longrightarrow> cls_forward c' = cls_forward c"
  by (induction lookup ms c rule: generate_magic.induct) (auto split: option.splits)

lemma generate_magic_attr:
  "generate_magic lookup ms c = Inr c' \<Longrightarrow>
   cls_attr c' n = (if n \<in> set ms then Some (MagicWrapper n) else cls_attr c n)"
  by (induction lookup ms c rule: generate_magic.induct) (auto split: option.splits)

lemma generate_magic_lookup:
  "generate_magic lookup ms c = Inr c' \<Longrightarrow> n \<in> set ms \<Longrightarrow> \<exists>attr. lookup n = Some attr"
  by (induction lookup ms c rule: generate_magic.induct) (auto split: option.splits)

lemma generate_magic_error:
  "generate_magic lookup ms c = Inl e \<Longrightarrow> \<exists>n. e = AttributeError n"
  by (induction lookup ms c rule: generate_magic.induct) (auto split: option.splits)

lemma type_init_simps:
  "cls_forward (type_init attrs) = []"
  "eligible attrs n \<Longrightarrow> cls_attr (type_init attrs) n = None"
  by (simp_all add: type_init_def eligible_def)

lemma magic_names_underscore: "list_all startswith_underscore Path_forward_magic"
  by (simp add: Path_forward_magic_def)

lemma eligible_not_magic: "eligible attrs n \<Longrightarrow> n \<notin> set Path_forward_magic"
proof
  assume el: "eligible attrs n" and "n \<in> set Path_forward_magic"
  with magic_names_underscore have "startswith_underscore n"
    by (simp add: list_all_iff)
  with el show False by (simp add: eligible_def)
qed

lemma dict_value_unique:
  "distinct (map fst d) \<Longrightarrow> (n, a) \<in> set d \<Longrightarrow> (n, b) \<in> set d \<Longrightarrow> a = b"
  by (rule eq_key_imp_eq_value)

lemma kind_names:
  "n \<in> set (map fst (filter (\<lambda>(n, a). P n \<and> a = k) d)) \<longleftrightarrow> P n \<and> (n, k) \<in> set d"
  by (induction d) auto

lemma generate_forwards_recorded:
  assumes "generate_forwards attrs d c = Inr c'"
  shows "n \<in> set (cls_forward c') \<longleftrightarrow>
           n \<in> set (cls_forward c) \<or> (eligible attrs n \<and> (n, Property) \<in> set d)"
proof -
  have "set (cls_forward c') =
      set (cls_forward c) \<union> set (map fst (filter (\<lambda>(n, a). eligible attrs n \<and> a = Property) d))"
    using generate_forwards_forward [OF assms] by simp
  then show ?thesis
    by (simp only: Un_iff kind_names)
qed

lemma forwards_pass_bucket:
  assumes run: "generate_forwards attrs d (type_init attrs) = Inr c1"
    and dist: "distinct (map fst d)"
    and mem: "(n, a) \<in> set d"
    and el: "eligible attrs n"
  shows "\<exists>b. forwards_bucket a = Some b \<and> (\<forall>b'. in_bucket c1 n b' \<longleftrightarrow> b' = b)"
proof -
  have only: "\<And>k. (n, k) \<in> set d \<longleftrightarrow> k = a"
    using dict_value_unique [OF dist mem] mem by blast
  have fw: "n \<in> set (cls_forward c1) \<longleftrightarrow> a = Property"
    using generate_forwards_recorded [OF run, of n] el only [of Property]
    by (simp add: type_init_simps eq_commute)
  have at: "cls_attr c1 n = (if a = Function then Some (ForwardWrapper n) else None)"
    using generate_forwards_attr [OF run, of n] el only [of Function]
    by (simp add: type_init_simps eq_commute)
  from generate_forwards_kinds [OF run mem el] show ?thesis
  proof
    assume a: "a = Property"
    have "in_bucket c1 n b' \<longleftrightarrow> b' = PropertyForward" for b'
      using fw at a by (cases b') simp_all
    with a show ?thesis by simp
  next
    assume a: "a = Function"
    have "in_bucket c1 n b' \<longleftrightarrow> b' = NonBlocking" for b'
      using fw at a by (cases b') simp_all
    with a show ?thesis by simp
  qed
qed

lemma wraps_pass_bucket:
  assumes run: "generate_wraps attrs d c1 = Inr c2"
    and dist: "distinct (map fst d)"
    and mem: "(n, a) \<in> set d"
    and el: "eligible attrs n"
  shows "\<exists>b. wraps_bucket a = Some b \<and> in_bucket c2 n b \<and>
           (\<forall>b'. b' \<noteq> PropertyForward \<longrightarrow> (in_bucket c2 n b' \<longleftrightarrow> b' = b))"
proof -
  have only: "\<And>k. (n, k) \<in> set d \<longleftrightarrow> k = a"
    using dict_value_unique [OF dist mem] mem by blast
  have at: "cls_attr c2 n =
      (if a = ClassMethod then Some (WrapsMember n)
       else if a = Function then Some (ThreadWrapper n) else cls_attr c1 n)"
    using generate_wraps_attr [OF run dist, of n] el only [of ClassMethod] only [of Function]
    by (simp add: eq_commute)
  from generate_wraps_kinds [OF run mem el] show ?thesis
  proof
    assume a: "a = ClassMethod"
    have "b' \<noteq> PropertyForward \<longrightarrow> (in_bucket c2 n b' \<longleftrightarrow> b' = ClassMethodAttached)" for b'
      using at a by (cases b') simp_all
    with a at show ?thesis by simp
  next
    assume a: "a = Function"
    have "b' \<noteq> PropertyForward \<longrightarrow> (in_bucket c2 n b' \<longleftrightarrow> b' = Blocking)" for b'
      using at a by (cases b') simp_all
    with a at show ?thesis by simp
  qed
qed

lemma wraps_pass_untouched:
  assumes run: "generate_wraps attrs d c1 = Inr c2"
    and dist: "distinct (map fst d)"
    and notin: "n \<notin> fst ` set d"
  shows "in_bucket c2 n b = in_bucket c1 n b"
proof -
  have no: "(n, k) \<notin> set d" for k
    using notin by (metis fst_conv image_eqI)
  have "cls_attr c2 n = cls_attr c1 n"
    using generate_wraps_attr [OF run dist, of n] by (simp add: no)
  then show ?thesis
    using generate_wraps_forward [OF run] by (cases b) simp_all
qed

lemma magic_pass_untouched:
  assumes run: "generate_magic lookup ms c2 = Inr c" and notin: "n \<notin> set ms"
  shows "in_bucket c n b = in_bucket c2 n b"
  using generate_magic_attr [OF run, of n] generate_magic_forward [OF run] notin
  by (cases b) simp_all

lemma forwards_pass_property_only:
  assumes run: "generate_forwards attrs d (type_init attrs) = Inr c1"
    and notin: "n \<notin> fst ` set d"
  shows "n \<notin> set (cls_forward c1)"
proof -
  have "(n, Property) \<notin> set d"
    using notin by (metis fst_conv image_eqI)
  then show ?thesis
    using generate_forwards_recorded [OF run, of n] by (simp add: type_init_simps)
qed

lemma forwards_bucket_None: "forwards_bucket a = None \<longleftrightarrow> a \<noteq> Property \<and> a \<noteq> Function"
  by (cases a) simp_all

lemma wraps_bucket_None: "wraps_bucket a = None \<longleftrightarrow> a \<noteq> ClassMethod \<and> a \<noteq> Function"
  by (cases a) simp_all

lemma Path_class_fails:
  assumes bad: "(\<exists>(n, a) \<in> set forwards_dict. eligible Path_attrs n \<and> forwards_bucket a = None) \<or>
      (\<exists>(n, a) \<in> set wraps_dict. eligible Path_attrs n \<and> wraps_bucket a = None)"
  shows "\<exists>n a. Path_class L forwards_dict wraps_dict = Inl (TypeError n a) \<and>
           eligible Path_attrs n \<and>
           ((n, a) \<in> set forwards_dict \<and> forwards_bucket a = None \<or>
            (n, a) \<in> set wraps_dict \<and> wraps_bucket a = None)"
proof (cases "generate_forwards Path_attrs forwards_dict (type_init Path_attrs)")
  case (Inl e)
  from generate_forwards_error [OF Inl]
  obtain n a where e: "e = TypeError n a" "(n, a) \<in> set forwards_dict"
      "eligible Path_attrs n" "a \<noteq> Property" "a \<noteq> Function"
    by blast
  have "Path_class L forwards_dict wraps_dict = Inl (TypeError n a)"
    using Inl e(1) by (simp add: Path_class_def AsyncAutoWrapperType_init_def)
  with e show ?thesis
    by (auto simp: forwards_bucket_None)
next
  case (Inr c1)
  have "\<not> (\<exists>(n, a) \<in> set forwards_dict. eligible Path_attrs n \<and> forwards_bucket a = None)"
    using generate_forwards_kinds [OF Inr] by (auto simp: forwards_bucket_None)
  with bad obtain n a where "(n, a) \<in> set wraps_dict" "eligible Path_attrs n"
      "a \<noteq> ClassMethod" "a \<noteq> Function"
    by (auto simp: wraps_bucket_None)
  from generate_wraps_fails [OF this, of c1]
  obtain n' a' where w: "generate_wraps Path_attrs wraps_dict c1 = Inl (TypeError n' a')"
      "(n', a') \<in> set wraps_dict" "eligible Path_attrs n'" "a' \<noteq> ClassMethod" "a' \<noteq> Function"
    by blast
  have "Path_class L forwards_dict wraps_dict = Inl (TypeError n' a')"
    using Inr w(1) by (simp add: Path_class_def AsyncAutoWrapperType_init_def)
  with w show ?thesis
    by (auto simp: wraps_bucket_None)
qed

lemma Path_class_passes:
  assumes "Path_class L forwards_dict wraps_dict = Inr c"
  shows "\<exists>c1 c2.
           generate_forwards Path_attrs forwards_dict (type_init Path_attrs) = Inr c1 \<and>
           generate_wraps Path_attrs wraps_dict c1 = Inr c2 \<and>
           generate_magic (forwards_attr L) Path_forward_magic c2 = Inr c"
  using assms
  by (simp add: Path_class_def AsyncAutoWrapperType_init_def split: sum.splits)

lemma forwards_member_placed:
  assumes f: "generate_forwards Path_attrs forwards_dict (type_init Path_attrs) = Inr c1"
    and w: "generate_wraps Path_attrs wraps_dict c1 = Inr c2"
    and m: "generate_magic lookup Path_forward_magic c2 = Inr c"
    and df: "distinct (map fst forwards_dict)"
    and dw: "distinct (map fst wraps_dict)"
    and mem: "(n, a) \<in> set forwards_dict"
    and el: "eligible Path_attrs n"
  shows "\<exists>b. forwards_bucket a = Some b \<and> (\<forall>b'. in_bucket c1 n b' \<longleftrightarrow> b' = b) \<and>
           (n \<notin> fst ` set wraps_dict \<longrightarrow> (\<forall>b'. in_bucket c n b' \<longleftrightarrow> b' = b))"
proof -
  from forwards_pass_bucket [OF f df mem el]
  obtain b where b: "forwards_bucket a = Some b" "\<forall>b'. in_bucket c1 n b' \<longleftrightarrow> b' = b"
    by blast
  have "in_bucket c n b' \<longleftrightarrow> b' = b" if "n \<notin> fst ` set wraps_dict" for b'
  proof -
    have "in_bucket c n b' = in_bucket c2 n b'"
      by (rule magic_pass_untouched [OF m eligible_not_magic [OF el]])
    also have "\<dots> = in_bucket c1 n b'"
      by (rule wraps_pass_untouched [OF w dw that])
    finally show ?thesis using b(2) by simp
  qed
  with b show ?thesis by blast
qed

lemma wraps_member_placed:
  assumes f: "generate_forwards Path_attrs forwards_dict (type_init Path_attrs) = Inr c1"
    and w: "generate_wraps Path_attrs wraps_dict c1 = Inr c2"
    and m: "generate_magic lookup Path_forward_magic c2 = Inr c"
    and dw: "distinct (map fst wraps_dict)"
    and mem: "(n, a) \<in> set wraps_dict"
    and el: "eligible Path_attrs n"
  shows "\<exists>b. wraps_bucket a = Some b \<and> in_bucket c n b \<and>
           (\<forall>b'. b' \<noteq> PropertyForward \<longrightarrow> (in_bucket c n b' \<longleftrightarrow> b' = b)) \<and>
           (n \<notin> fst ` set forwards_dict \<longrightarrow> (\<forall>b'. in_bucket c n b' \<longleftrightarrow> b' = b))"
proof -
  from wraps_pass_bucket [OF w dw mem el]
  obtain b where b: "wraps_bucket a = Some b" "in_bucket c2 n b"
      "\<forall>b'. b' \<noteq> PropertyForward \<longrightarrow> (in_bucket c2 n b' \<longleftrightarrow> b' = b)"
    by blast
  have same: "in_bucket c n b' = in_bucket c2 n b'" for b'
    by (rule magic_pass_untouched [OF m eligible_not_magic [OF el]])
  have nb: "b \<noteq> PropertyForward"
    using b(1) by (cases a) auto
  have "in_bucket c n b' \<longleftrightarrow> b' = b" if "n \<notin> fst ` set forwards_dict" for b'
  proof (cases "b' = PropertyForward")
    case True
    have "n \<notin> set (cls_forward c1)"
      by (rule forwards_pass_property_only [OF f that])
    then have "\<not> in_bucket c2 n PropertyForward"
      using generate_wraps_forward [OF w] by simp
    then have "\<not> in_bucket c n PropertyForward"
      using same [of PropertyForward] by blast
    with True nb show ?thesis by blast
  next
    case False
    with b(3) same show ?thesis by simp
  qed
  with b same show ?thesis by simp
qed

lemma toy_class_builds: "\<exists>c. Path_class toy toy_forwards_dict toy_wraps_dict = Inr c"
  by (simp add: Path_class_def AsyncAutoWrapperType_init_def toy_forwards_dict_def
      toy_wraps_dict_def Path_attrs_def Path_forward_magic_def toy_forwards_attr_def Let_def)

lemma toy_dicts_distinct:
  "distinct (map fst toy_forwards_dict)"
  "distinct (map fst toy_wraps_dict)"
  "distinct (map fst (toy_forwards_dict @ [(''flag'', Data)]))"
  by (simp_all add: toy_forwards_dict_def toy_wraps_dict_def)

text \<open>
  Claim C6. In the construction of \<^verbatim>\<open>class Path\<close>, a member of either source whose name
  neither starts with an underscore nor is a name of the class body is never skipped.
  If one of them has a kind the loop of its source does not recognise (neither property
  nor function on \<^verbatim>\<open>_forwards\<close>, neither classmethod nor function on \<^verbatim>\<open>_wraps\<close>), the
  construction raises \<^verbatim>\<open>TypeError\<close> naming such a member. If the construction succeeds, the pass over
  \<^verbatim>\<open>_forwards\<close> puts each of its members into exactly one of the four buckets, the one of
  its kind (state \<open>c1\<close>); the pass over \<^verbatim>\<open>_wraps\<close> puts each of its members into the bucket
  of its kind and into no other attribute bucket, also in the finished class \<open>c\<close>; and a
  member whose name the other source does not declare is in exactly one of the four
  buckets of the finished class.
\<close>

theorem classifier_places_or_fails:
  assumes df: "distinct (map fst forwards_dict)" and dw: "distinct (map fst wraps_dict)"
  shows
    "((\<exists>(n, a) \<in> set forwards_dict. eligible Path_attrs n \<and> forwards_bucket a = None) \<or>
      (\<exists>(n, a) \<in> set wraps_dict. eligible Path_attrs n \<and> wraps_bucket a = None) \<longrightarrow>
        (\<exists>n a. Path_class L forwards_dict wraps_dict = Inl (TypeError n a) \<and>
           eligible Path_attrs n \<and>
           ((n, a) \<in> set forwards_dict \<and> forwards_bucket a = None \<or>
            (n, a) \<in> set wraps_dict \<and> wraps_bucket a = None))) \<and>
     (\<forall>c. Path_class L forwards_dict wraps_dict = Inr c \<longrightarrow>
        (\<exists>c1 c2.
           generate_forwards Path_attrs forwards_dict (type_init Path_attrs) = Inr c1 \<and>
           generate_wraps Path_attrs wraps_dict c1 = Inr c2 \<and>
           generate_magic (forwards_attr L) Path_forward_magic c2 = Inr c \<and>
           (\<forall>(n, a) \<in> set forwards_dict. eligible Path_attrs n \<longrightarrow>
              (\<exists>b. forwards_bucket a = Some b \<and> (\<forall>b'. in_bucket c1 n b' \<longleftrightarrow> b' = b) \<and>
                 (n \<notin> fst ` set wraps_dict \<longrightarrow> (\<forall>b'. in_bucket c n b' \<longleftrightarrow> b' = b)))) \<and>
           (\<forall>(n, a) \<in> set wraps_dict. eligible Path_attrs n \<longrightarrow>
              (\<exists>b. wraps_bucket a = Some b \<and> in_bucket c n b \<and>
                 (\<forall>b'. b' \<noteq> PropertyForward \<longrightarrow> (in_bucket c n b' \<longleftrightarrow> b' = b)) \<and>
                 (n \<notin> fst ` set forwards_dict \<longrightarrow> (\<forall>b'. in_bucket c n b' \<longleftrightarrow> b' = b))))))"
proof (intro conjI allI impI)
  assume "(\<exists>(n, a) \<in> set forwards_dict. eligible Path_attrs n \<and> forwards_bucket a = None) \<or>
      (\<exists>(n, a) \<in> set wraps_dict. eligible Path_attrs n \<and> wraps_bucket a = None)"
  then show "\<exists>n a. Path_class L forwards_dict wraps_dict = Inl (TypeError n a) \<and>
           eligible Path_attrs n \<and>
           ((n, a) \<in> set forwards_dict \<and> forwards_bucket a = None \<or>
            (n, a) \<in> set wraps_dict \<and> wraps_bucket a = None)"
    by (rule Path_class_fails)
next
  fix c assume "Path_class L forwards_dict wraps_dict = Inr c"
  from Path_class_passes [OF this] obtain c1 c2 where
    f: "generate_forwards Path_attrs forwards_dict (type_init Path_attrs) = Inr c1" and
    w: "generate_wraps Path_attrs wraps_dict c1 = Inr c2" and
    m: "generate_magic (forwards_attr L) Path_forward_magic c2 = Inr c"
    by blast
  have fm: "\<forall>(n, a) \<in> set forwards_dict. eligible Path_attrs n \<longrightarrow>
      (\<exists>b. forwards_bucket a = Some b \<and> (\<forall>b'. in_bucket c1 n b' \<longleftrightarrow> b' = b) \<and>
         (n \<notin> fst ` set wraps_dict \<longrightarrow> (\<forall>b'. in_bucket c n b' \<longleftrightarrow> b' = b)))"
    using forwards_member_placed [OF f w m df dw] by blast
  have wm: "\<forall>(n, a) \<in> set wraps_dict. eligible Path_attrs n \<longrightarrow>
      (\<exists>b. wraps_bucket a = Some b \<and> in_bucket c n b \<and>
         (\<forall>b'. b' \<noteq> PropertyForward \<longrightarrow> (in_bucket c n b' \<longleftrightarrow> b' = b)) \<and>
         (n \<notin> fst ` set forwards_dict \<longrightarrow> (\<forall>b'. in_bucket c n b' \<longleftrightarrow> b' = b)))"
    using wraps_member_placed [OF f w m dw] by blast
  from f w m fm wm show "\<exists>c1 c2.
           generate_forwards Path_attrs forwards_dict (type_init Path_attrs) = Inr c1 \<and>
           generate_wraps Path_attrs wraps_dict c1 = Inr c2 \<and>
           generate_magic (forwards_attr L) Path_forward_magic c2 = Inr c \<and>
           (\<forall>(n, a) \<in> set forwards_dict. eligible Path_attrs n \<longrightarrow>
              (\<exists>b. forwards_bucket a = Some b \<and> (\<forall>b'. in_bucket c1 n b' \<longleftrightarrow> b' = b) \<and>
                 (n \<notin> fst ` set wraps_dict \<longrightarrow> (\<forall>b'. in_bucket c n b' \<longleftrightarrow> b' = b)))) \<and>
           (\<forall>(n, a) \<in> set wraps_dict. eligible Path_attrs n \<longrightarrow>
              (\<exists>b. wraps_bucket a = Some b \<and> in_bucket c n b \<and>
                 (\<forall>b'. b' \<noteq> PropertyForward \<longrightarrow> (in_bucket c n b' \<longleftrightarrow> b' = b)) \<and>
                 (n \<notin> fst ` set forwards_dict \<longrightarrow> (\<forall>b'. in_bucket c n b' \<longleftrightarrow> b' = b))))"
    by blast
qed

theorem classifier_places_or_fails_witness:
  "distinct (map fst toy_forwards_dict) \<and> distinct (map fst toy_wraps_dict) \<and>
   (\<exists>c. Path_class toy toy_forwards_dict toy_wraps_dict = Inr c \<and>
        in_bucket c ''name'' PropertyForward \<and> in_bucket c ''joinpath'' NonBlocking \<and>
        in_bucket c ''cwd'' ClassMethodAttached \<and> in_bucket c ''exists'' Blocking \<and>
        \<not> in_bucket c ''exists'' NonBlocking) \<and>
   Path_class toy (toy_forwards_dict @ [(''flag'', Data)]) toy_wraps_dict =
     Inl (TypeError ''flag'' Data)"
proof -
  note ok = classifier_places_or_fails [OF toy_dicts_distinct(1) toy_dicts_distinct(2), of toy]
  note bad = classifier_places_or_fails [OF toy_dicts_distinct(3) toy_dicts_distinct(2), of toy]
  obtain c where c: "Path_class toy toy_forwards_dict toy_wraps_dict = Inr c"
    using toy_class_builds by blast
  from ok c obtain c1 c2 where
    fm: "\<forall>(n, a) \<in> set toy_forwards_dict. eligible Path_attrs n \<longrightarrow>
          (\<exists>b. forwards_bucket a = Some b \<and> (\<forall>b'. in_bucket c1 n b' \<longleftrightarrow> b' = b) \<and>
             (n \<notin> fst ` set toy_wraps_dict \<longrightarrow> (\<forall>b'. in_bucket c n b' \<longleftrightarrow> b' = b)))" and
    wm: "\<forall>(n, a) \<in> set toy_wraps_dict. eligible Path_attrs n \<longrightarrow>
          (\<exists>b. wraps_bucket a = Some b \<and> in_bucket c n b \<and>
             (\<forall>b'. b' \<noteq> PropertyForward \<longrightarrow> (in_bucket c n b' \<longleftrightarrow> b' = b)) \<and>
             (n \<notin> fst ` set toy_forwards_dict \<longrightarrow> (\<forall>b'. in_bucket c n b' \<longleftrightarrow> b' = b)))"
    by blast
  have "(\<forall>b'. in_bucket c ''name'' b' \<longleftrightarrow> b' = PropertyForward) \<and>
      (\<forall>b'. in_bucket c ''joinpath'' b' \<longleftrightarrow> b' = NonBlocking)"
    using fm
    by (simp add: toy_forwards_dict_def toy_wraps_dict_def eligible_def Path_attrs_def
        del: in_bucket.simps)
  then have f1: "in_bucket c ''name'' PropertyForward \<and> in_bucket c ''joinpath'' NonBlocking"
    by blast
  have "(\<forall>b'. in_bucket c ''cwd'' b' \<longleftrightarrow> b' = ClassMethodAttached) \<and>
      (\<forall>b'. in_bucket c ''exists'' b' \<longleftrightarrow> b' = Blocking)"
    using wm
    by (simp add: toy_forwards_dict_def toy_wraps_dict_def eligible_def Path_attrs_def
        del: in_bucket.simps)
  then have w1: "in_bucket c ''cwd'' ClassMethodAttached \<and> in_bucket c ''exists'' Blocking \<and>
      \<not> in_bucket c ''exists'' NonBlocking"
    by blast
  have "\<exists>(n, a) \<in> set (toy_forwards_dict @ [(''flag'', Data)]).
      eligible Path_attrs n \<and> forwards_bucket a = None"
    by (simp add: eligible_def Path_attrs_def)
  with bad obtain n a where
    e: "Path_class toy (toy_forwards_dict @ [(''flag'', Data)]) toy_wraps_dict =
          Inl (TypeError n a)"
    by blast
  have "Path_class toy (toy_forwards_dict @ [(''flag'', Data)]) toy_wraps_dict =
      Inl (TypeError ''flag'' Data)"
    by (simp add: Path_class_def AsyncAutoWrapperType_init_def toy_forwards_dict_def
        Path_attrs_def Let_def)
  with e c f1 w1 toy_dicts_distinct show ?thesis by blast
qed

section \<open>Properties of the dispatchers\<close>

text \<open>
  Claim C1. The non-blocking dispatcher for the operation \<open>op\<close>, called on a facade owning
  \<open>r\<close>, looks \<open>op\<close> up on \<open>r\<close>, calls it with the unwrapped positional arguments and the
  keyword arguments as given, and returns the rewrapped result; an error of the lookup
  or of the call is the result of the dispatcher.
\<close>

theorem forward_factory_contract:
  "forward_factory L op (Facade r) args kwargs =
     (case getattr_method L r op of
        Inl e \<Rightarrow> Inl e
      | Inr m \<Rightarrow>
          (case m (map (\<lambda>a. case a of Facade w \<Rightarrow> w | _ \<Rightarrow> a) args) kwargs of
             Inl e \<Rightarrow> Inl e
           | Inr v \<Rightarrow> rewrap_path L v)) \<and>
   (\<forall>m v. getattr_method L r op = Inr m \<and> m (unwrap_paths args) kwargs = Inr v \<longrightarrow>
      forward_factory L op (Facade r) args kwargs = rewrap_path L v) \<and>
   (\<forall>m e. getattr_method L r op = Inr m \<and> m (unwrap_paths args) kwargs = Inl e \<longrightarrow>
      forward_factory L op (Facade r) args kwargs = Inl e)"
  by (simp add: forward_factory_def unwrap_paths_map split: sum.splits)

theorem forward_factory_contract_witness:
  "(\<exists>m. getattr_method toy (Raw ''a'') ''joinpath'' = Inr m \<and>
        m (unwrap_paths [Facade (Raw ''b''), VStr ''c'']) [] = Inr (Raw ''a/b/c'')) \<and>
   forward_factory toy ''joinpath'' (Facade (Raw ''a'')) [Facade (Raw ''b''), VStr ''c''] [] =
     Inr (Facade (Raw ''a/b/c'')) \<and>
   forward_factory toy ''as_posix'' (Facade (Raw ''a'')) [] [] = Inr (VStr ''a'') \<and>
   forward_factory toy ''iterdir'' (Facade (Raw ''a'')) [] [] = Inl (Raised ''FileNotFoundError'')"
  using forward_factory_contract
    [of toy "''joinpath''" "Raw ''a''" "[Facade (Raw ''b''), VStr ''c'']" "[]"]
  by (simp add: toy_lib_defs forward_factory_def unwrap_paths_map Path_init_raw)

text \<open>
  Claim C2. The blocking dispatcher for the operation \<open>op\<close>, called on a facade owning \<open>r\<close>,
  looks \<open>op\<close> up on \<open>r\<close>, binds it to the positional arguments, each facade among them
  replaced by the value it owns, and to the keyword arguments as given, hands the
  deferred call to the worker facility, and returns the rewrapped value: a raw path
  \<open>p\<close> comes back as a new facade, which owns \<open>p\<close> where \<^verbatim>\<open>pathlib.Path(p)\<close> is \<open>p\<close> again, and
  any other value comes back as it is. An error of the lookup or of the deferred call is
  the result of the dispatcher. With the worker facility running the deferred call, the
  result is that of the non-blocking dispatcher.
\<close>

theorem thread_wrapper_contract:
  "thread_wrapper_factory L op (Facade r) args kwargs =
     (case getattr_method L r op of
        Inl e \<Rightarrow> Inl e
      | Inr m \<Rightarrow>
          (case run_sync_in_worker_thread
                  (partial m (map (\<lambda>a. case a of Facade w \<Rightarrow> w | _ \<Rightarrow> a) args) kwargs) of
             Inl e \<Rightarrow> Inl e
           | Inr v \<Rightarrow> rewrap_path L v)) \<and>
   (\<forall>m v. getattr_method L r op = Inr m \<and>
      m (map (\<lambda>a. case a of Facade w \<Rightarrow> w | _ \<Rightarrow> a) args) kwargs = Inr v \<longrightarrow>
      thread_wrapper_factory L op (Facade r) args kwargs = rewrap_path L v) \<and>
   (\<forall>m p. getattr_method L r op = Inr m \<and>
      m (map (\<lambda>a. case a of Facade w \<Rightarrow> w | _ \<Rightarrow> a) args) kwargs = Inr (Raw p) \<longrightarrow>
      thread_wrapper_factory L op (Facade r) args kwargs =
        (case Path_new L [Raw p] of Inl e \<Rightarrow> Inl e | Inr p' \<Rightarrow> Inr (Facade (Raw p')))) \<and>
   (\<forall>m p. getattr_method L r op = Inr m \<and>
      m (map (\<lambda>a. case a of Facade w \<Rightarrow> w | _ \<Rightarrow> a) args) kwargs = Inr (Raw p) \<and>
      Path_new L [Raw p] = Inr p \<longrightarrow>
      thread_wrapper_factory L op (Facade r) args kwargs = Inr (Facade (Raw p))) \<and>
   (\<forall>m v. getattr_method L r op = Inr m \<and>
      m (map (\<lambda>a. case a of Facade w \<Rightarrow> w | _ \<Rightarrow> a) args) kwargs = Inr v \<and>
      (\<forall>p. v \<noteq> Raw p) \<longrightarrow>
      thread_wrapper_factory L op (Facade r) args kwargs = Inr v) \<and>
   (\<forall>m e. getattr_method L r op = Inr m \<and>
      m (map (\<lambda>a. case a of Facade w \<Rightarrow> w | _ \<Rightarrow> a) args) kwargs = Inl e \<longrightarrow>
      thread_wrapper_factory L op (Facade r) args kwargs = Inl e) \<and>
   (\<forall>e. getattr_method L r op = Inl e \<longrightarrow>
      thread_wrapper_factory L op (Facade r) args kwargs = Inl e) \<and>
   thread_wrapper_factory L op (Facade r) args kwargs =
     forward_factory L op (Facade r) args kwargs"
proof -
  let ?u = "map (\<lambda>a. case a of Facade w \<Rightarrow> w | _ \<Rightarrow> a) args"
  have run: "thread_wrapper_factory L op (Facade r) args kwargs =
      (case getattr_method L r op of
         Inl e \<Rightarrow> Inl e
       | Inr m \<Rightarrow> (case m ?u kwargs of Inl e \<Rightarrow> Inl e | Inr v \<Rightarrow> rewrap_path L v))"
    by (simp add: thread_wrapper_factory_def run_sync_in_worker_thread_def partial_def
        unwrap_paths_map Let_def split: sum.splits)
  have 1: "thread_wrapper_factory L op (Facade r) args kwargs =
      (case getattr_method L r op of
         Inl e \<Rightarrow> Inl e
       | Inr m \<Rightarrow>
           (case run_sync_in_worker_thread (partial m ?u kwargs) of
              Inl e \<Rightarrow> Inl e
            | Inr v \<Rightarrow> rewrap_path L v))"
    by (simp add: run run_sync_in_worker_thread_def partial_def split: sum.splits)
  have 2: "\<forall>m v. getattr_method L r op = Inr m \<and> m ?u kwargs = Inr v \<longrightarrow>
      thread_wrapper_factory L op (Facade r) args kwargs = rewrap_path L v"
    by (simp add: run)
  have 3: "\<forall>m p. getattr_method L r op = Inr m \<and> m ?u kwargs = Inr (Raw p) \<longrightarrow>
      thread_wrapper_factory L op (Facade r) args kwargs =
        (case Path_new L [Raw p] of Inl e \<Rightarrow> Inl e | Inr p' \<Rightarrow> Inr (Facade (Raw p')))"
    by (simp add: run Path_init_raw)
  have 4: "\<forall>m p. getattr_method L r op = Inr m \<and> m ?u kwargs = Inr (Raw p) \<and>
      Path_new L [Raw p] = Inr p \<longrightarrow>
      thread_wrapper_factory L op (Facade r) args kwargs = Inr (Facade (Raw p))"
    by (simp add: run Path_init_raw)
  have 5: "\<forall>m v. getattr_method L r op = Inr m \<and> m ?u kwargs = Inr v \<and> (\<forall>p. v \<noteq> Raw p) \<longrightarrow>
      thread_wrapper_factory L op (Facade r) args kwargs = Inr v"
    by (simp add: run rewrap_path_not_raw)
  have 6: "\<forall>m e. getattr_method L r op = Inr m \<and> m ?u kwargs = Inl e \<longrightarrow>
      thread_wrapper_factory L op (Facade r) args kwargs = Inl e"
    by (simp add: run)
  have 7: "\<forall>e. getattr_method L r op = Inl e \<longrightarrow>
      thread_wrapper_factory L op (Facade r) args kwargs = Inl e"
    by (simp add: run)
  have 8: "thread_wrapper_factory L op (Facade r) args kwargs =
      forward_factory L op (Facade r) args kwargs"
    by (simp add: run forward_factory_def unwrap_paths_map)
  from 1 2 3 4 5 6 7 8 show ?thesis by blast
qed

theorem thread_wrapper_contract_witness:
  "(\<exists>m. getattr_method toy (Raw ''a'') ''rename'' = Inr m \<and>
        m [Raw ''b''] [] = Inr (Raw ''b'')) \<and>
   Path_new toy [Raw ''b''] = Inr ''b'' \<and>
   thread_wrapper_factory toy ''rename'' (Facade (Raw ''a'')) [Facade (Raw ''b'')] [] =
     Inr (Facade (Raw ''b'')) \<and>
   (\<exists>m. getattr_method toy (Raw ''a'') ''samefile'' = Inr m \<and>
        m [Raw ''a''] [(''strict'', VBool True)] = Inr (VBool True)) \<and>
   thread_wrapper_factory toy ''samefile'' (Facade (Raw ''a'')) [Facade (Raw ''a'')]
     [(''strict'', VBool True)] = Inr (VBool True) \<and>
   (\<exists>m. getattr_method toy (Raw ''a'') ''iterdir'' = Inr m \<and>
        m [] [] = Inl (Raised ''FileNotFoundError'')) \<and>
   thread_wrapper_factory toy ''iterdir'' (Facade (Raw ''a'')) [] [] =
     Inl (Raised ''FileNotFoundError'') \<and>
   getattr_method toy (Raw ''a'') ''unknown'' = Inl (AttributeError ''unknown'') \<and>
   thread_wrapper_factory toy ''unknown'' (Facade (Raw ''a'')) [] [] =
     Inl (AttributeError ''unknown'')"
proof -
  note rn = thread_wrapper_contract [of toy "''rename''" "Raw ''a''" "[Facade (Raw ''b'')]" "[]"]
  note sf = thread_wrapper_contract
    [of toy "''samefile''" "Raw ''a''" "[Facade (Raw ''a'')]" "[(''strict'', VBool True)]"]
  note it = thread_wrapper_contract [of toy "''iterdir''" "Raw ''a''" "[]" "[]"]
  note un = thread_wrapper_contract [of toy "''unknown''" "Raw ''a''" "[]" "[]"]
  have u1: "map (\<lambda>a. case a of Facade w \<Rightarrow> w | _ \<Rightarrow> a) [Facade (Raw ''b'')] =
      [Raw ''b'' :: string val]"
    by simp
  have u2: "map (\<lambda>a. case a of Facade w \<Rightarrow> w | _ \<Rightarrow> a) [Facade (Raw ''a'')] =
      [Raw ''a'' :: string val]"
    by simp
  have u3: "map (\<lambda>a. case a of Facade w \<Rightarrow> w | _ \<Rightarrow> a) [] = ([] :: string val list)"
    by simp
  have m1: "\<exists>m. getattr_method toy (Raw ''a'') ''rename'' = Inr m \<and>
      m [Raw ''b''] [] = Inr (Raw ''b'')"
    by (simp add: toy_getattr_method_def toy_method_def)
  have c1: "Path_new toy [Raw ''b''] = Inr ''b''"
    by (simp add: toy_Path_new_def)
  have r1: "thread_wrapper_factory toy ''rename'' (Facade (Raw ''a'')) [Facade (Raw ''b'')] [] =
      Inr (Facade (Raw ''b''))"
    using rn m1 c1 unfolding u1 by blast
  have m2: "\<exists>m. getattr_method toy (Raw ''a'') ''samefile'' = Inr m \<and>
      m [Raw ''a''] [(''strict'', VBool True)] = Inr (VBool True)"
    by (simp add: toy_getattr_method_def toy_method_def)
  have r2: "thread_wrapper_factory toy ''samefile'' (Facade (Raw ''a'')) [Facade (Raw ''a'')]
      [(''strict'', VBool True)] = Inr (VBool True)"
    using sf m2 unfolding u2 by blast
  have m3: "\<exists>m. getattr_method toy (Raw ''a'') ''iterdir'' = Inr m \<and>
      m [] [] = Inl (Raised ''FileNotFoundError'')"
    by (simp add: toy_getattr_method_def toy_method_def)
  have r3: "thread_wrapper_factory toy ''iterdir'' (Facade (Raw ''a'')) [] [] =
      Inl (Raised ''FileNotFoundError'')"
    using it m3 unfolding u3 by blast
  have m4: "getattr_method toy (Raw ''a'') ''unknown'' = Inl (AttributeError ''unknown'')"
    by (simp add: toy_getattr_method_def toy_method_def)
  have r4: "thread_wrapper_factory toy ''unknown'' (Facade (Raw ''a'')) [] [] =
      Inl (AttributeError ''unknown'')"
    using un m4 by blast
  from m1 c1 r1 m2 r2 m3 r3 m4 r4 show ?thesis by blast
qed

lemma Path_class_magic_attached:
  assumes "Path_class L forwards_dict wraps_dict = Inr c"
    and "name \<in> set Path_forward_magic"
  shows "cls_attr c name = Some (MagicWrapper name) \<and> (\<exists>attr. forwards_attr L name = Some attr)"
proof -
  from Path_class_passes [OF assms(1)] obtain c2 where
    m: "generate_magic (forwards_attr L) Path_forward_magic c2 = Inr c"
    by blast
  show ?thesis
    using generate_magic_attr [OF m, of name] generate_magic_lookup [OF m assms(2)] assms(2)
    by simp
qed

lemma forward_magic_unary: "forward_magic L attr (Facade r) None = attr [r]"
  by (simp add: forward_magic_def)

lemma forward_magic_facade_operand:
  "forward_magic L attr (Facade r) (Some (Facade w)) =
     (case attr [r, w] of Inl e \<Rightarrow> Inl e | Inr v \<Rightarrow> rewrap_path L v)"
  by (simp add: forward_magic_def)

lemma forward_magic_other_operand:
  "(\<forall>w. x \<noteq> Facade w) \<Longrightarrow>
   forward_magic L attr (Facade r) (Some x) =
     (case attr [r, x] of Inl e \<Rightarrow> Inl e | Inr v \<Rightarrow> rewrap_path L v)"
  by (cases x) (simp_all add: forward_magic_def)

text \<open>
  Claim C3. The operator dispatcher built from an operator \<open>attr\<close> of \<^verbatim>\<open>pathlib.PurePath\<close>,
  on a facade owning \<open>r\<close>: without an operand it returns \<open>attr\<close> applied to \<open>r\<close> as it is, also
  when that is a raw path; with an operand that is a facade it calls \<open>attr\<close> on \<open>r\<close>
  and the value the operand owns, with any other operand it calls \<open>attr\<close> on \<open>r\<close> and the
  operand itself, and returns the rewrapped result. Where the class is built, every name
  of \<^verbatim>\<open>_forward_magic\<close> has such a dispatcher attached, made from the attribute of that name.
\<close>

theorem forward_magic_contract:
  "forward_magic L attr (Facade r) None = attr [r] \<and>
   (\<forall>p. attr [r] = Inr (Raw p) \<longrightarrow> forward_magic L attr (Facade r) None = Inr (Raw p)) \<and>
   forward_magic L attr (Facade r) (Some (Facade w)) =
     (case attr [r, w] of Inl e \<Rightarrow> Inl e | Inr v \<Rightarrow> rewrap_path L v) \<and>
   ((\<forall>w. x \<noteq> Facade w) \<longrightarrow>
      forward_magic L attr (Facade r) (Some x) =
        (case attr [r, x] of Inl e \<Rightarrow> Inl e | Inr v \<Rightarrow> rewrap_path L v)) \<and>
   (\<forall>c. Path_class L forwards_dict wraps_dict = Inr c \<longrightarrow>
      (\<forall>name \<in> set Path_forward_magic.
         cls_attr c name = Some (MagicWrapper name) \<and>
         (\<exists>f. forwards_attr L name = Some f)))"
  using Path_class_magic_attached [of L forwards_dict wraps_dict]
  by (simp add: forward_magic_unary forward_magic_facade_operand forward_magic_other_operand)

theorem forward_magic_contract_witness:
  "forward_magic toy (toy_unary Raw) (Facade (Raw ''a'')) None = Inr (Raw ''a'') \<and>
   forward_magic toy (toy_binary toy_truediv) (Facade (Raw ''a'')) (Some (Facade (Raw ''b''))) =
     Inr (Facade (Raw ''a/b'')) \<and>
   forward_magic toy (toy_binary toy_truediv) (Facade (Raw ''a'')) (Some (VStr ''b'')) =
     Inr (Facade (Raw ''a/b'')) \<and>
   forward_magic toy (toy_binary toy_eq) (Facade (Raw ''a'')) (Some VNone) = Inr NotImplemented \<and>
   (\<exists>c. Path_class toy toy_forwards_dict toy_wraps_dict = Inr c \<and>
        cls_attr c ''__eq__'' = Some (MagicWrapper ''__eq__'') \<and>
        cls_attr c ''__truediv__'' = Some (MagicWrapper ''__truediv__''))"
proof -
  note u = forward_magic_contract
    [of toy "toy_unary Raw" "Raw ''a''" "Raw ''b''" "VStr ''b''" toy_forwards_dict toy_wraps_dict]
  note b = forward_magic_contract
    [of toy "toy_binary toy_truediv" "Raw ''a''" "Raw ''b''" "VStr ''b''"
      toy_forwards_dict toy_wraps_dict]
  note e = forward_magic_contract
    [of toy "toy_binary toy_eq" "Raw ''a''" "Raw ''b''" VNone toy_forwards_dict toy_wraps_dict]
  obtain c where c: "Path_class toy toy_forwards_dict toy_wraps_dict = Inr c"
    using toy_class_builds by blast
  have 1: "forward_magic toy (toy_unary Raw) (Facade (Raw ''a'')) None = Inr (Raw ''a'')"
    using u by (simp add: toy_unary_def)
  have 2: "forward_magic toy (toy_binary toy_truediv) (Facade (Raw ''a''))
      (Some (Facade (Raw ''b''))) = Inr (Facade (Raw ''a/b''))"
    using b by (simp add: toy_lib_defs Path_init_raw)
  have 3: "forward_magic toy (toy_binary toy_truediv) (Facade (Raw ''a''))
      (Some (VStr ''b'')) = Inr (Facade (Raw ''a/b''))"
    using b by (simp add: toy_lib_defs Path_init_raw)
  have 4: "forward_magic toy (toy_binary toy_eq) (Facade (Raw ''a'')) (Some VNone) =
      Inr NotImplemented"
    using e by (simp add: toy_lib_defs)
  have 5: "cls_attr c ''__eq__'' = Some (MagicWrapper ''__eq__'') \<and>
      cls_attr c ''__truediv__'' = Some (MagicWrapper ''__truediv__'')"
    using u c by (simp add: Path_forward_magic_def)
  from 1 2 3 4 5 c show ?thesis by blast
qed

section \<open>Properties of the attribute fallback\<close>

lemma Path_class_forward:
  assumes "Path_class L forwards_dict wraps_dict = Inr c"
  shows "name \<in> set (cls_forward c) \<longleftrightarrow>
           eligible Path_attrs name \<and> (name, Property) \<in> set forwards_dict"
proof -
  from Path_class_passes [OF assms] obtain c1 c2 where
    f: "generate_forwards Path_attrs forwards_dict (type_init Path_attrs) = Inr c1" and
    w: "generate_wraps Path_attrs wraps_dict c1 = Inr c2" and
    m: "generate_magic (forwards_attr L) Path_forward_magic c2 = Inr c"
    by blast
  have "cls_forward c = cls_forward c1"
    using generate_wraps_forward [OF w] generate_magic_forward [OF m] by simp
  then show ?thesis
    using generate_forwards_recorded [OF f, of name] by (simp add: type_init_simps)
qed

text \<open>
  Claim C7. \<^verbatim>\<open>Path.__getattr__\<close>, which Python calls for a name that is neither defined
  in the class body nor attached by the metaclass: for a name in \<^verbatim>\<open>_forward\<close> it reads the
  attribute of the owned value and returns it rewrapped; for any other name it raises
  \<^verbatim>\<open>AttributeError\<close> of that name. In the built class, \<^verbatim>\<open>_forward\<close> holds exactly the
  names of the properties of \<^verbatim>\<open>_forwards\<close> that the classifier does not skip.
\<close>

theorem Path_getattr_contract:
  "(name \<in> set (cls_forward c) \<longrightarrow>
      Path_getattr L c (Facade r) name =
        (case getattr_value L r name of Inl e \<Rightarrow> Inl e | Inr v \<Rightarrow> rewrap_path L v)) \<and>
   (name \<notin> set (cls_forward c) \<longrightarrow>
      Path_getattr L c (Facade r) name = Inl (AttributeError name)) \<and>
   (Path_class L forwards_dict wraps_dict = Inr c \<longrightarrow>
      (name \<in> set (cls_forward c) \<longleftrightarrow>
         eligible Path_attrs name \<and> (name, Property) \<in> set forwards_dict))"
  using Path_class_forward [of L forwards_dict wraps_dict c name]
  by (simp add: Path_getattr_def)

theorem Path_getattr_contract_witness:
  "(\<exists>c. Path_class toy toy_forwards_dict toy_wraps_dict = Inr c \<and>
        ''parent'' \<in> set (cls_forward c) \<and>
        Path_getattr toy c (Facade (Raw ''a'')) ''parent'' = Inr (Facade (Raw ''.'')) \<and>
        ''name'' \<in> set (cls_forward c) \<and>
        Path_getattr toy c (Facade (Raw ''a'')) ''name'' = Inr (VStr ''a'') \<and>
        ''nothing'' \<notin> set (cls_forward c) \<and>
        Path_getattr toy c (Facade (Raw ''a'')) ''nothing'' = Inl (AttributeError ''nothing''))"
proof -
  obtain c where c: "Path_class toy toy_forwards_dict toy_wraps_dict = Inr c"
    using toy_class_builds by blast
  note p = Path_getattr_contract [of "''parent''" c toy "Raw ''a''" toy_forwards_dict toy_wraps_dict]
  note n = Path_getattr_contract [of "''name''" c toy "Raw ''a''" toy_forwards_dict toy_wraps_dict]
  note x = Path_getattr_contract [of "''nothing''" c toy "Raw ''a''" toy_forwards_dict toy_wraps_dict]
  have mp: "''parent'' \<in> set (cls_forward c)"
    using p c by (simp add: eligible_def Path_attrs_def toy_forwards_dict_def)
  have mn: "''name'' \<in> set (cls_forward c)"
    using n c by (simp add: eligible_def Path_attrs_def toy_forwards_dict_def)
  have mx: "''nothing'' \<notin> set (cls_forward c)"
    using x c by (simp add: eligible_def Path_attrs_def toy_forwards_dict_def)
  have 1: "Path_getattr toy c (Facade (Raw ''a'')) ''parent'' = Inr (Facade (Raw ''.''))"
    using p mp by (simp add: toy_lib_defs Path_init_raw)
  have 2: "Path_getattr toy c (Facade (Raw ''a'')) ''name'' = Inr (VStr ''a'')"
    using n mn by (simp add: toy_lib_defs)
  have 3: "Path_getattr toy c (Facade (Raw ''a'')) ''nothing'' = Inl (AttributeError ''nothing'')"
    using x mx by simp
  from c mp mn mx 1 2 3 show ?thesis by blast
qed

section \<open>Operators on facades and raw paths\<close>

lemma forward_magic_bool:
  assumes "attr [r, case x of Facade w \<Rightarrow> w | _ \<Rightarrow> x] = Inr (VBool b)"
  shows "forward_magic L attr (Facade r) (Some x) = Inr (VBool b)"
  using assms by (simp add: forward_magic_def)

lemma forward_magic_raw:
  assumes "attr [r, case x of Facade w \<Rightarrow> w | _ \<Rightarrow> x] = Inr (Raw j)"
    and "Path_new L [Raw j] = Inr j"
  shows "forward_magic L attr (Facade r) (Some x) = Inr (Facade (Raw j))"
  using assms by (simp add: forward_magic_def Path_init_copy)

text \<open>
  Claim C8. The operator dispatchers give, on a facade operand and on the raw path it owns,
  the same answer, which is the answer of the underlying operator on the raw paths: a
  Boolean is returned as it is and a raw path is returned as a facade. With the paths of
  \<^verbatim>\<open>"a"\<close> and \<^verbatim>\<open>"a/b"\<close>, where the library finds the path of \<^verbatim>\<open>"a"\<close> equal to itself and
  its join with \<^verbatim>\<open>"b"\<close> equal to the path of \<^verbatim>\<open>"a/b"\<close>: the facade of \<^verbatim>\<open>"a"\<close> equals the raw
  path and the facade of \<^verbatim>\<open>"a"\<close>, and its join with \<^verbatim>\<open>"b"\<close> is a facade that equals the
  facade of \<^verbatim>\<open>"a/b"\<close>.
\<close>

theorem operators_mixed_operands:
  assumes eq: "forwards_attr L ''__eq__'' = Some eq"
    and tdiv: "forwards_attr L ''__truediv__'' = Some tdiv"
    and a: "Path_new L [VStr ''a''] = Inr a"
    and ab: "Path_new L [VStr ''a/b''] = Inr ab"
    and eq_a: "eq [Raw a, Raw a] = Inr (VBool True)"
    and join: "tdiv [Raw a, VStr ''b''] = Inr (Raw j)"
    and copy: "Path_new L [Raw j] = Inr j"
    and eq_j: "eq [Raw j, Raw ab] = Inr (VBool True)"
  shows "Path_init L [VStr ''a''] = Inr (Facade (Raw a)) \<and>
     Path_init L [VStr ''a/b''] = Inr (Facade (Raw ab)) \<and>
     forward_magic L eq (Facade (Raw a)) (Some (Raw a)) = Inr (VBool True) \<and>
     forward_magic L eq (Facade (Raw a)) (Some (Facade (Raw a))) = Inr (VBool True) \<and>
     forward_magic L tdiv (Facade (Raw a)) (Some (VStr ''b'')) = Inr (Facade (Raw j)) \<and>
     forward_magic L eq (Facade (Raw j)) (Some (Facade (Raw ab))) = Inr (VBool True) \<and>
     forward_magic L op (Facade (Raw x)) (Some (Facade (Raw y))) =
       forward_magic L op (Facade (Raw x)) (Some (Raw y)) \<and>
     (\<forall>b. op [Raw x, Raw y] = Inr (VBool b) \<longrightarrow>
        forward_magic L op (Facade (Raw x)) (Some (Raw y)) = Inr (VBool b) \<and>
        forward_magic L op (Facade (Raw x)) (Some (Facade (Raw y))) = Inr (VBool b)) \<and>
     (\<forall>z. op [Raw x, Raw y] = Inr (Raw z) \<and> Path_new L [Raw z] = Inr z \<longrightarrow>
        forward_magic L op (Facade (Raw x)) (Some (Raw y)) = Inr (Facade (Raw z)) \<and>
        forward_magic L op (Facade (Raw x)) (Some (Facade (Raw y))) = Inr (Facade (Raw z)))"
proof -
  have 1: "Path_init L [VStr ''a''] = Inr (Facade (Raw a))"
    using a by (simp add: Path_init_def unwrap_paths_map)
  have 2: "Path_init L [VStr ''a/b''] = Inr (Facade (Raw ab))"
    using ab by (simp add: Path_init_def unwrap_paths_map)
  have 3: "forward_magic L eq (Facade (Raw a)) (Some (Raw a)) = Inr (VBool True)"
    using eq_a by (simp add: forward_magic_bool)
  have 4: "forward_magic L eq (Facade (Raw a)) (Some (Facade (Raw a))) = Inr (VBool True)"
    using eq_a by (simp add: forward_magic_bool)
  have 5: "forward_magic L tdiv (Facade (Raw a)) (Some (VStr ''b'')) = Inr (Facade (Raw j))"
    using join copy by (simp add: forward_magic_raw)
  have 6: "forward_magic L eq (Facade (Raw j)) (Some (Facade (Raw ab))) = Inr (VBool True)"
    using eq_j by (simp add: forward_magic_bool)
  have 7: "forward_magic L op (Facade (Raw x)) (Some (Facade (Raw y))) =
       forward_magic L op (Facade (Raw x)) (Some (Raw y))"
    by (simp add: forward_magic_def)
  have 8: "\<forall>b. op [Raw x, Raw y] = Inr (VBool b) \<longrightarrow>
        forward_magic L op (Facade (Raw x)) (Some (Raw y)) = Inr (VBool b) \<and>
        forward_magic L op (Facade (Raw x)) (Some (Facade (Raw y))) = Inr (VBool b)"
    by (simp add: forward_magic_bool)
  have 9: "\<forall>z. op [Raw x, Raw y] = Inr (Raw z) \<and> Path_new L [Raw z] = Inr z \<longrightarrow>
        forward_magic L op (Facade (Raw x)) (Some (Raw y)) = Inr (Facade (Raw z)) \<and>
        forward_magic L op (Facade (Raw x)) (Some (Facade (Raw y))) = Inr (Facade (Raw z))"
    by (simp add: forward_magic_raw)
  from 1 2 3 4 5 6 7 8 9 show ?thesis by blast
qed

theorem operators_mixed_operands_witness:
  "forwards_attr toy ''__eq__'' = Some (toy_binary toy_eq) \<and>
   forwards_attr toy ''__truediv__'' = Some (toy_binary toy_truediv) \<and>
   Path_new toy [VStr ''a''] = Inr ''a'' \<and>
   Path_new toy [VStr ''a/b''] = Inr ''a/b'' \<and>
   toy_binary toy_eq [Raw ''a'', Raw ''a''] = Inr (VBool True) \<and>
   toy_binary toy_truediv [Raw ''a'', VStr ''b''] = Inr (Raw ''a/b'') \<and>
   Path_new toy [Raw ''a/b''] = Inr ''a/b'' \<and>
   toy_binary toy_eq [Raw ''a/b'', Raw ''a/b''] = Inr (VBool True) \<and>
   forward_magic toy (toy_binary toy_eq) (Facade (Raw ''a'')) (Some (Raw ''a'')) =
     Inr (VBool True) \<and>
   forward_magic toy (toy_binary toy_eq) (Facade (Raw ''a'')) (Some (Facade (Raw ''a''))) =
     Inr (VBool True) \<and>
   forward_magic toy (toy_binary toy_truediv) (Facade (Raw ''a'')) (Some (VStr ''b'')) =
     Inr (Facade (Raw ''a/b'')) \<and>
   forward_magic toy (toy_binary toy_eq) (Facade (Raw ''a/b'')) (Some (Facade (Raw ''a/b''))) =
     Inr (VBool True) \<and>
   forward_magic toy (toy_binary (toy_compare (<))) (Facade (Raw ''a'')) (Some (Facade (Raw ''bc''))) =
     Inr (VBool True)"
proof -
  have h: "forwards_attr toy ''__eq__'' = Some (toy_binary toy_eq)"
    "forwards_attr toy ''__truediv__'' = Some (toy_binary toy_truediv)"
    "Path_new toy [VStr ''a''] = Inr ''a''"
    "Path_new toy [VStr ''a/b''] = Inr ''a/b''"
    "toy_binary toy_eq [Raw ''a'', Raw ''a''] = Inr (VBool True)"
    "toy_binary toy_truediv [Raw ''a'', VStr ''b''] = Inr (Raw ''a/b'')"
    "Path_new toy [Raw ''a/b''] = Inr ''a/b''"
    "toy_binary toy_eq [Raw ''a/b'', Raw ''a/b''] = Inr (VBool True)"
    by (simp_all add: toy_lib_defs)
  have lt: "toy_binary (toy_compare (<)) [Raw ''a'', Raw ''bc''] = Inr (VBool True)"
    by (simp add: toy_lib_defs)
  note inst = operators_mixed_operands [OF h, of "toy_binary (toy_compare (<))" "''a''" "''bc''"]
  from inst lt have "forward_magic toy (toy_binary (toy_compare (<))) (Facade (Raw ''a''))
      (Some (Facade (Raw ''bc''))) = Inr (VBool True)"
    by blast
  with inst h show ?thesis by blast
qed

lemma roundtrip_copy:
  "Path_new L [Raw p] = Inr p \<Longrightarrow> roundtrip L p = Inr (Facade (Raw p))"
  by (simp add: roundtrip_def Path_init_copy unwrap_paths_map item0_def)

text \<open>
  Claim C9. Where \<^verbatim>\<open>pathlib.Path(p)\<close> is \<open>p\<close> again: the facade of \<open>p\<close> owns \<open>p\<close>, unwrapping
  the one-element list holding it gives \<open>p\<close>, and rewrapping that gives the facade of \<open>p\<close>;
  comparing the result with \<open>p\<close> by the dispatcher of \<^verbatim>\<open>__eq__\<close> gives what the library's
  comparison of \<open>p\<close> with itself gives.
\<close>

theorem roundtrip_equal:
  assumes copy: "Path_new L [Raw p] = Inr p"
  shows "Path_init L [Raw p] = Inr (Facade (Raw p)) \<and>
     item0 (unwrap_paths [Facade (Raw p)]) = Inr (Raw p) \<and>
     rewrap_path L (Raw p) = Inr (Facade (Raw p)) \<and>
     roundtrip L p = Inr (Facade (Raw p)) \<and>
     (\<forall>eq b. forwards_attr L ''__eq__'' = Some eq \<and> eq [Raw p, Raw p] = Inr (VBool b) \<longrightarrow>
        (case roundtrip L p of
           Inl e \<Rightarrow> Inl e
         | Inr f \<Rightarrow> forward_magic L eq f (Some (Raw p))) = Inr (VBool b))"
  using copy
  by (simp add: Path_init_copy roundtrip_copy unwrap_paths_map item0_def forward_magic_bool)

theorem roundtrip_equal_witness:
  "Path_new toy [Raw ''a/b''] = Inr ''a/b'' \<and>
   roundtrip toy ''a/b'' = Inr (Facade (Raw ''a/b'')) \<and>
   forwards_attr toy ''__eq__'' = Some (toy_binary toy_eq) \<and>
   toy_binary toy_eq [Raw ''a/b'', Raw ''a/b''] = Inr (VBool True) \<and>
   (case roundtrip toy ''a/b'' of
      Inl e \<Rightarrow> Inl e
    | Inr f \<Rightarrow> forward_magic toy (toy_binary toy_eq) f (Some (Raw ''a/b''))) = Inr (VBool True)"
proof -
  have copy: "Path_new toy [Raw ''a/b''] = Inr ''a/b''"
    by (simp add: toy_lib_defs)
  have eq: "forwards_attr toy ''__eq__'' = Some (toy_binary toy_eq)"
    by (simp add: toy_forwards_attr_def)
  have refl: "toy_binary toy_eq [Raw ''a/b'', Raw ''a/b''] = Inr (VBool True)"
    by (simp add: toy_binary_def toy_eq_def)
  from roundtrip_equal [OF copy] eq refl copy show ?thesis
    by blast
qed

section \<open>The invariant of facades\<close>

lemma Path_init_result:
  "Path_init L args = Inr f \<Longrightarrow>
   \<exists>r. f = Facade (Raw r) \<and> Path_new L (unwrap_paths args) = Inr r"
  by (auto simp: Path_init_def split: sum.splits)

lemma rewrap_path_result:
  "rewrap_path L v = Inr v' \<Longrightarrow>
   (v' = v \<and> (\<forall>r. v \<noteq> Raw r)) \<or> (\<exists>r r'. v = Raw r \<and> v' = Facade (Raw r'))"
  by (cases v) (auto dest: Path_init_result)

lemma rewrap_path_owns_raw:
  "rewrap_path L v = Inr v' \<Longrightarrow> owns_raw v \<Longrightarrow> owns_raw v'"
  by (drule rewrap_path_result) auto

lemma owns_raw_unwrapped:
  "owns_raw a \<Longrightarrow> (case a of Facade w \<Rightarrow> w | _ \<Rightarrow> a) \<noteq> Facade w'"
  by (cases a rule: owns_raw.cases) simp_all

lemma unwrap_paths_no_facade:
  assumes "\<forall>a \<in> set args. owns_raw a"
  shows "\<forall>a \<in> set (unwrap_paths args). \<forall>w. a \<noteq> Facade w"
  using assms by (auto simp: unwrap_paths_map dest: owns_raw_unwrapped)

lemma unwrap_paths_fixed:
  "\<forall>a \<in> set args. \<forall>w. a \<noteq> Facade w \<Longrightarrow> unwrap_paths args = args"
  unfolding unwrap_paths_map
proof (induction args)
  case Nil
  then show ?case by simp
next
  case (Cons a args)
  then show ?case by (cases a) simp_all
qed

lemma unwrap_paths_idem:
  assumes "\<forall>a \<in> set args. owns_raw a"
  shows "unwrap_paths (unwrap_paths args) = unwrap_paths args"
  by (rule unwrap_paths_fixed [OF unwrap_paths_no_facade [OF assms]])

lemma rewrapped_fresh_or_same:
  "rewrap_path L u = Inr v \<Longrightarrow> (\<exists>p. v = Facade (Raw p)) \<or> v = u"
  by (drule rewrap_path_result) auto

lemma forward_factory_result:
  assumes "forward_factory L op self args kwargs = Inr v"
  shows "(\<exists>p. v = Facade (Raw p)) \<or>
         (\<exists>w m. wrapped self = Inr w \<and> getattr_method L w op = Inr m \<and>
            m (unwrap_paths args) kwargs = Inr v)"
  using assms
  by (auto simp: forward_factory_def split: sum.splits dest!: rewrapped_fresh_or_same)

lemma thread_wrapper_result:
  assumes "thread_wrapper_factory L op self args kwargs = Inr v"
  shows "(\<exists>p. v = Facade (Raw p)) \<or>
         (\<exists>w m. wrapped self = Inr w \<and> getattr_method L w op = Inr m \<and>
            m (unwrap_paths args) kwargs = Inr v)"
  using assms
  by (auto simp: thread_wrapper_factory_def run_sync_in_worker_thread_def partial_def
      split: sum.splits dest!: rewrapped_fresh_or_same)

lemma forward_magic_result:
  assumes "forward_magic L attr self (Some x) = Inr v"
  shows "(\<exists>p. v = Facade (Raw p)) \<or>
         (\<exists>w. wrapped self = Inr w \<and>
            attr [w, case x of Facade w' \<Rightarrow> w' | _ \<Rightarrow> x] = Inr v)"
  using assms
  by (auto simp: forward_magic_def split: sum.splits dest!: rewrapped_fresh_or_same)

lemma Path_getattr_result:
  assumes "Path_getattr L c self name = Inr v"
  shows "(\<exists>p. v = Facade (Raw p)) \<or>
         (\<exists>w. wrapped self = Inr w \<and> getattr_value L w name = Inr v)"
  using assms
  by (auto simp: Path_getattr_def split: sum.splits if_splits dest!: rewrapped_fresh_or_same)

text \<open>
  Claim C10. The value a facade owns is a raw path and never a facade. The constructor
  builds the owned value with \<^verbatim>\<open>pathlib.Path\<close> from the unwrapped arguments, so every
  facade it returns owns a raw path; \<^verbatim>\<open>rewrap_path\<close> changes a value only when it is a raw
  path, into a facade owning a raw path, and so preserves the invariant. Unwrapping
  arguments that satisfy the invariant leaves no facade at the top level, so unwrapping
  again changes nothing. A value returned by a dispatcher or by \<^verbatim>\<open>__getattr__\<close> is
  either a new facade owning a raw path or the very value the underlying library returned.
\<close>

theorem facade_owns_raw_invariant:
  "(\<forall>f. Path_init L args = Inr f \<longrightarrow>
      (\<exists>r. f = Facade (Raw r) \<and> Path_new L (unwrap_paths args) = Inr r)) \<and>
   (\<forall>v'. rewrap_path L v = Inr v' \<longrightarrow>
      (v' = v \<and> (\<forall>r. v \<noteq> Raw r)) \<or> (\<exists>r r'. v = Raw r \<and> v' = Facade (Raw r'))) \<and>
   (\<forall>v'. rewrap_path L v = Inr v' \<and> owns_raw v \<longrightarrow> owns_raw v') \<and>
   ((\<forall>a \<in> set args. owns_raw a) \<longrightarrow>
      (\<forall>a \<in> set (unwrap_paths args). \<forall>w. a \<noteq> Facade w) \<and>
      unwrap_paths (unwrap_paths args) = unwrap_paths args) \<and>
   (\<forall>u. forward_factory L op self args kwargs = Inr u \<longrightarrow>
      (\<exists>p. u = Facade (Raw p)) \<or>
      (\<exists>w m. wrapped self = Inr w \<and> getattr_method L w op = Inr m \<and>
         m (unwrap_paths args) kwargs = Inr u)) \<and>
   (\<forall>u. thread_wrapper_factory L op self args kwargs = Inr u \<longrightarrow>
      (\<exists>p. u = Facade (Raw p)) \<or>
      (\<exists>w m. wrapped self = Inr w \<and> getattr_method L w op = Inr m \<and>
         m (unwrap_paths args) kwargs = Inr u)) \<and>
   (\<forall>u. forward_magic L attr self (Some x) = Inr u \<longrightarrow>
      (\<exists>p. u = Facade (Raw p)) \<or>
      (\<exists>w. wrapped self = Inr w \<and>
         attr [w, case x of Facade w' \<Rightarrow> w' | _ \<Rightarrow> x] = Inr u)) \<and>
   (\<forall>u. Path_getattr L c self name = Inr u \<longrightarrow>
      (\<exists>p. u = Facade (Raw p)) \<or>
      (\<exists>w. wrapped self = Inr w \<and> getattr_value L w name = Inr u))"
proof (intro conjI allI impI)
  fix f assume "Path_init L args = Inr f"
  then show "\<exists>r. f = Facade (Raw r) \<and> Path_new L (unwrap_paths args) = Inr r"
    by (rule Path_init_result)
next
  fix v' assume "rewrap_path L v = Inr v'"
  then show "(v' = v \<and> (\<forall>r. v \<noteq> Raw r)) \<or> (\<exists>r r'. v = Raw r \<and> v' = Facade (Raw r'))"
    by (rule rewrap_path_result)
next
  fix v' assume "rewrap_path L v = Inr v' \<and> owns_raw v"
  then show "owns_raw v'"
    using rewrap_path_owns_raw by blast
next
  assume "\<forall>a \<in> set args. owns_raw a"
  then show "\<forall>a \<in> set (unwrap_paths args). \<forall>w. a \<noteq> Facade w"
    by (rule unwrap_paths_no_facade)
next
  assume "\<forall>a \<in> set args. owns_raw a"
  then show "unwrap_paths (unwrap_paths args) = unwrap_paths args"
    by (rule unwrap_paths_idem)
next
  fix u assume "forward_factory L op self args kwargs = Inr u"
  then show "(\<exists>p. u = Facade (Raw p)) \<or>
      (\<exists>w m. wrapped self = Inr w \<and> getattr_method L w op = Inr m \<and>
         m (unwrap_paths args) kwargs = Inr u)"
    by (rule forward_factory_result)
next
  fix u assume "thread_wrapper_factory L op self args kwargs = Inr u"
  then show "(\<exists>p. u = Facade (Raw p)) \<or>
      (\<exists>w m. wrapped self = Inr w \<and> getattr_method L w op = Inr m \<and>
         m (unwrap_paths args) kwargs = Inr u)"
    by (rule thread_wrapper_result)
next
  fix u assume "forward_magic L attr self (Some x) = Inr u"
  then show "(\<exists>p. u = Facade (Raw p)) \<or>
      (\<exists>w. wrapped self = Inr w \<and>
         attr [w, case x of Facade w' \<Rightarrow> w' | _ \<Rightarrow> x] = Inr u)"
    by (rule forward_magic_result)
next
  fix u assume "Path_getattr L c self name = Inr u"
  then show "(\<exists>p. u = Facade (Raw p)) \<or>
      (\<exists>w. wrapped self = Inr w \<and> getattr_value L w name = Inr u)"
    by (rule Path_getattr_result)
qed

theorem facade_owns_raw_invariant_witness:
  "Path_init toy [Facade (Raw ''a''), VStr ''b''] = Inr (Facade (Raw ''a/b'')) \<and>
   owns_raw (Facade (Raw ''a/b'') :: string val) \<and>
   rewrap_path toy (Raw ''x'') = Inr (Facade (Raw ''x'')) \<and>
   owns_raw (Facade (Raw ''a'') :: string val) \<and> owns_raw (VStr ''b'' :: string val) \<and>
   unwrap_paths [Facade (Raw ''a''), VStr ''b''] = [Raw ''a'', VStr ''b''] \<and>
   unwrap_paths (unwrap_paths [Facade (Raw ''a''), VStr ''b'']) = [Raw ''a'', VStr ''b''] \<and>
   forward_factory toy ''joinpath'' (Facade (Raw ''a'')) [Facade (Raw ''a''), VStr ''b''] [] =
     Inr (Facade (Raw ''a/a/b''))"
proof -
  note inv = facade_owns_raw_invariant
    [of toy "[Facade (Raw ''a''), VStr ''b'']" "Raw ''x''" "''joinpath''" "Facade (Raw ''a'')" "[]"]
  have i: "Path_init toy [Facade (Raw ''a''), VStr ''b''] = Inr (Facade (Raw ''a/b''))"
    by (simp add: Path_init_def unwrap_paths_map toy_lib_defs)
  have r: "rewrap_path toy (Raw ''x'') = Inr (Facade (Raw ''x''))"
    by (simp add: Path_init_raw toy_lib_defs)
  have o: "\<forall>a \<in> set [Facade (Raw ''a''), VStr ''b'' :: string val]. owns_raw a"
    by simp
  have u: "unwrap_paths [Facade (Raw ''a''), VStr ''b'' :: string val] = [Raw ''a'', VStr ''b'']"
    by (simp add: unwrap_paths_map)
  have uu: "unwrap_paths (unwrap_paths [Facade (Raw ''a''), VStr ''b'' :: string val]) =
      [Raw ''a'', VStr ''b'']"
    using inv o u by simp
  have f: "forward_factory toy ''joinpath'' (Facade (Raw ''a''))
      [Facade (Raw ''a''), VStr ''b''] [] = Inr (Facade (Raw ''a/a/b''))"
    by (simp add: forward_factory_def unwrap_paths_map toy_lib_defs Path_init_raw)
  from i r u uu f show ?thesis by simp
qed

end
